theory Spec2Isabelle
  imports Complex_Main "HOL-Library.AList" "HOL-Library.Multiset"
begin

section \<open>Python values\<close>

text \<open>
  The program is a Python script (\<^verbatim>\<open>src/app.py\<close>) that works on parsed JSON.
  A float is modelled by the number it denotes: a finite real, an infinity or
  not-a-number. Rounding to 53 bits is not part of the model; the overflow of
  \<^verbatim>\<open>float(n)\<close> on an integer beyond the double range is.
\<close>

datatype pyfloat = Fin real | PosInf | NegInf | NaN

datatype pyval =
    PNone
  | PBool bool
  | PInt int
  | PFloat pyfloat
  | PStr string
  | PList "pyval list"
  | PTuple "pyval list"
  | PDict "(string \<times> pyval) list"

text \<open>The exceptions raised by the modelled code; all are subclasses of \<^verbatim>\<open>Exception\<close>.\<close>

datatype pyerr = TypeError | ValueError | OverflowError | KeyError | IndexError
  | AttributeError | RequestError

definition bind_err :: "pyerr + 'a \<Rightarrow> ('a \<Rightarrow> pyerr + 'b) \<Rightarrow> pyerr + 'b" where
  "bind_err m f = (case m of Inl e \<Rightarrow> Inl e | Inr v \<Rightarrow> f v)"

text \<open>A comprehension \<^verbatim>\<open>[f(x) for x in xs]\<close>: left to right, the first exception ends it.\<close>

fun map_err :: "('a \<Rightarrow> pyerr + 'b) \<Rightarrow> 'a list \<Rightarrow> pyerr + 'b list" where
  "map_err f [] = Inr []"
| "map_err f (x # xs) =
     bind_err (f x) (\<lambda>y. bind_err (map_err f xs) (\<lambda>ys. Inr (y # ys)))"

text \<open>\<^verbatim>\<open>try: body except Exception: return handler\<close>.\<close>

definition try_except :: "pyerr + 'a \<Rightarrow> 'a \<Rightarrow> pyerr + 'a" where
  "try_except body handler = (case body of Inl e \<Rightarrow> Inr handler | Inr v \<Rightarrow> Inr v)"

text \<open>Python's \<^verbatim>\<open><=\<close> on floats: every comparison with nan is false.\<close>

fun fle :: "pyfloat \<Rightarrow> pyfloat \<Rightarrow> bool" where
  "fle NaN _ = False"
| "fle _ NaN = False"
| "fle NegInf _ = True"
| "fle _ PosInf = True"
| "fle (Fin a) (Fin b) = (a \<le> b)"
| "fle PosInf _ = False"
| "fle _ NegInf = False"

text \<open>
  \<^verbatim>\<open>float(n)\<close> on an integer raises OverflowError from \<open>2^1024 - 2^970\<close> on, the
  first magnitude that rounds beyond the largest double.
\<close>

definition float_overflow_at :: int where
  "float_overflow_at = 2 ^ 1024 - 2 ^ 970"

text \<open>
  \<^verbatim>\<open>float(x)\<close>. How Python reads a string as a float is a parameter \<open>sf\<close>
  (\<open>None\<close> where \<^verbatim>\<open>float(s)\<close> raises ValueError). A bool is an int.
\<close>

type_synonym str2float = "string \<Rightarrow> pyfloat option"

fun py_float :: "str2float \<Rightarrow> pyval \<Rightarrow> pyerr + pyfloat" where
  "py_float sf (PFloat f) = Inr f"
| "py_float sf (PInt n) =
     (if \<bar>n\<bar> < float_overflow_at then Inr (Fin (of_int n)) else Inl OverflowError)"
| "py_float sf (PBool b) = Inr (Fin (if b then 1 else 0))"
| "py_float sf (PStr s) = (case sf s of None \<Rightarrow> Inl ValueError | Some f \<Rightarrow> Inr f)"
| "py_float sf _ = Inl TypeError"

text \<open>\<^verbatim>\<open>isinstance(x, (list, tuple))\<close>, with the elements.\<close>

fun seq_items :: "pyval \<Rightarrow> pyval list option" where
  "seq_items (PList xs) = Some xs"
| "seq_items (PTuple xs) = Some xs"
| "seq_items _ = None"

section \<open>Coordinate heuristic\<close>

definition LAT_MIN :: pyfloat where "LAT_MIN = Fin (-11.5)"
definition LAT_MAX :: pyfloat where "LAT_MAX = Fin 6.5"
definition LON_MIN :: pyfloat where "LON_MIN = Fin 94.0"
definition LON_MAX :: pyfloat where "LON_MAX = Fin 141.5"

text \<open>
  \<^verbatim>\<open>
  def looks_like_latlon(pair):
      if not isinstance(pair, (list, tuple)) or len(pair) < 2:
          return False
      a, b = pair[0], pair[1]
      try:
          a = float(a); b = float(b)
      except Exception:
          return False
      return (LAT_MIN <= a <= LAT_MAX) and (LON_MIN <= b <= LON_MAX)
  \<close>
\<close>

definition looks_like_latlon :: "str2float \<Rightarrow> pyval \<Rightarrow> pyerr + bool" where
  "looks_like_latlon sf pair =
     (case seq_items pair of
        None \<Rightarrow> Inr False
      | Some xs \<Rightarrow>
          if length xs < 2 then Inr False
          else
            (case bind_err (py_float sf (xs ! 0)) (\<lambda>a.
                  bind_err (py_float sf (xs ! 1)) (\<lambda>b. Inr (a, b))) of
               Inl e \<Rightarrow> Inr False
             | Inr (a, b) \<Rightarrow>
                 Inr ((fle LAT_MIN a \<and> fle a LAT_MAX) \<and> (fle LON_MIN b \<and> fle b LON_MAX))))"

text \<open>The same test on the elements, as a plain truth value.\<close>

definition in_envelope :: "str2float \<Rightarrow> pyval list \<Rightarrow> bool" where
  "in_envelope sf xs =
     (2 \<le> length xs \<and>
      (case (py_float sf (xs ! 0), py_float sf (xs ! 1)) of
         (Inr (Fin a), Inr (Fin b)) \<Rightarrow> -11.5 \<le> a \<and> a \<le> 6.5 \<and> 94 \<le> b \<and> b \<le> 141.5
       | _ \<Rightarrow> False))"

section \<open>Geometry axis normalizer\<close>

text \<open>\<^verbatim>\<open>isinstance(x, (int, float, str))\<close>; a bool is an int.\<close>

fun is_int_float_str :: "pyval \<Rightarrow> bool" where
  "is_int_float_str (PBool _) = True"
| "is_int_float_str (PInt _) = True"
| "is_int_float_str (PFloat _) = True"
| "is_int_float_str (PStr _) = True"
| "is_int_float_str _ = False"

text \<open>\<^verbatim>\<open>float(x) if isinstance(x, str) else x\<close>.\<close>

fun float_if_str :: "str2float \<Rightarrow> pyval \<Rightarrow> pyerr + pyval" where
  "float_if_str sf (PStr s) = bind_err (py_float sf (PStr s)) (\<lambda>f. Inr (PFloat f))"
| "float_if_str sf x = Inr x"

text \<open>
  The branch of \<^verbatim>\<open>swap_xy_in_coords\<close> for a candidate point (\<open>obj\<close> is the list or
  tuple, \<open>xs\<close> its elements):
  \<^verbatim>\<open>
            if looks_like_latlon(obj):
                a, b = float(obj[0]), float(obj[1])
                rest = [float(x) for x in obj[2:]] if len(obj) > 2 else []
                return [b, a, *rest]
            else:
                return [float(x) if isinstance(x, str) else x for x in obj]
  \<close>
\<close>

definition swap_point :: "str2float \<Rightarrow> pyval \<Rightarrow> pyval list \<Rightarrow> pyerr + pyval" where
  "swap_point sf obj xs =
     bind_err (looks_like_latlon sf obj) (\<lambda>fires.
       if fires then
         bind_err (py_float sf (xs ! 0)) (\<lambda>a.
         bind_err (py_float sf (xs ! 1)) (\<lambda>b.
         bind_err (if 2 < length xs then map_err (py_float sf) (drop 2 xs) else Inr []) (\<lambda>rest.
         Inr (PList (PFloat b # PFloat a # map PFloat rest)))))
       else
         bind_err (map_err (float_if_str sf) xs) (\<lambda>ys. Inr (PList ys)))"

text \<open>
  \<^verbatim>\<open>
  def swap_xy_in_coords(obj):
      if isinstance(obj, (list, tuple)):
          if len(obj) >= 2 and all(isinstance(x, (int, float, str)) for x in obj[:2]):
              ... (the candidate point, above)
          else:
              return [swap_xy_in_coords(x) for x in obj]
      elif isinstance(obj, dict):
          return {k: swap_xy_in_coords(v) if k != "type" else v for k, v in obj.items()}
      else:
          return obj
  \<close>
  \<open>swap_each\<close> is the list comprehension, \<open>swap_items\<close> the dict comprehension.
\<close>

fun swap_xy_in_coords :: "str2float \<Rightarrow> pyval \<Rightarrow> pyerr + pyval"
  and swap_each :: "str2float \<Rightarrow> pyval list \<Rightarrow> pyerr + pyval list"
  and swap_items :: "str2float \<Rightarrow> (string \<times> pyval) list \<Rightarrow> pyerr + (string \<times> pyval) list"
where
  "swap_xy_in_coords sf (PList xs) =
     (if 2 \<le> length xs \<and> list_all is_int_float_str (take 2 xs)
      then swap_point sf (PList xs) xs
      else bind_err (swap_each sf xs) (\<lambda>ys. Inr (PList ys)))"
| "swap_xy_in_coords sf (PTuple xs) =
     (if 2 \<le> length xs \<and> list_all is_int_float_str (take 2 xs)
      then swap_point sf (PTuple xs) xs
      else bind_err (swap_each sf xs) (\<lambda>ys. Inr (PList ys)))"
| "swap_xy_in_coords sf (PDict kvs) = bind_err (swap_items sf kvs) (\<lambda>kvs'. Inr (PDict kvs'))"
| "swap_xy_in_coords sf PNone = Inr PNone"
| "swap_xy_in_coords sf (PBool b) = Inr (PBool b)"
| "swap_xy_in_coords sf (PInt n) = Inr (PInt n)"
| "swap_xy_in_coords sf (PFloat f) = Inr (PFloat f)"
| "swap_xy_in_coords sf (PStr s) = Inr (PStr s)"
| "swap_each sf [] = Inr []"
| "swap_each sf (x # xs) =
     bind_err (swap_xy_in_coords sf x) (\<lambda>y.
     bind_err (swap_each sf xs) (\<lambda>ys. Inr (y # ys)))"
| "swap_items sf [] = Inr []"
| "swap_items sf ((k, v) # kvs) =
     bind_err (if k \<noteq> ''type'' then swap_xy_in_coords sf v else Inr v) (\<lambda>v'.
     bind_err (swap_items sf kvs) (\<lambda>kvs'. Inr ((k, v') # kvs')))"

subsection \<open>Shape, numeric content and well-formed input\<close>

text \<open>
  The shape of a value: its nesting and the number of elements at every level.
  Lists and tuples are both sequences; a dict keeps its keys.
\<close>

datatype shape = Scalar | Sequence "shape list" | Mapping "(string \<times> shape) list"

fun shape_of :: "pyval \<Rightarrow> shape"
  and shapes_of :: "pyval list \<Rightarrow> shape list"
  and shape_items :: "(string \<times> pyval) list \<Rightarrow> (string \<times> shape) list"
where
  "shape_of (PList xs) = Sequence (shapes_of xs)"
| "shape_of (PTuple xs) = Sequence (shapes_of xs)"
| "shape_of (PDict kvs) = Mapping (shape_items kvs)"
| "shape_of PNone = Scalar"
| "shape_of (PBool b) = Scalar"
| "shape_of (PInt n) = Scalar"
| "shape_of (PFloat f) = Scalar"
| "shape_of (PStr s) = Scalar"
| "shapes_of [] = []"
| "shapes_of (x # xs) = shape_of x # shapes_of xs"
| "shape_items [] = []"
| "shape_items ((k, v) # kvs) = (k, shape_of v) # shape_items kvs"

fun depth :: "shape \<Rightarrow> nat"
  and depths :: "shape list \<Rightarrow> nat"
  and depth_items :: "(string \<times> shape) list \<Rightarrow> nat"
where
  "depth Scalar = 0"
| "depth (Sequence ss) = Suc (depths ss)"
| "depth (Mapping kss) = Suc (depth_items kss)"
| "depths [] = 0"
| "depths (s # ss) = max (depth s) (depths ss)"
| "depth_items [] = 0"
| "depth_items ((k, s) # kss) = max (depth s) (depth_items kss)"

text \<open>
  A value up to Python's numeric equality: every scalar that \<^verbatim>\<open>float()\<close> accepts is
  replaced by its float (\<^verbatim>\<open>5 == 5.0\<close>, \<^verbatim>\<open>True == 1.0\<close>, and a numeric-looking string by
  the number it spells), and a tuple by the list of its elements.
\<close>

fun numeric_view :: "str2float \<Rightarrow> pyval \<Rightarrow> pyval"
  and numeric_views :: "str2float \<Rightarrow> pyval list \<Rightarrow> pyval list"
  and numeric_view_items :: "str2float \<Rightarrow> (string \<times> pyval) list \<Rightarrow> (string \<times> pyval) list"
where
  "numeric_view sf (PList xs) = PList (numeric_views sf xs)"
| "numeric_view sf (PTuple xs) = PList (numeric_views sf xs)"
| "numeric_view sf (PDict kvs) = PDict (numeric_view_items sf kvs)"
| "numeric_view sf PNone = PNone"
| "numeric_view sf (PBool b) = PFloat (Fin (if b then 1 else 0))"
| "numeric_view sf (PInt n) = (case py_float sf (PInt n) of Inr f \<Rightarrow> PFloat f | Inl e \<Rightarrow> PInt n)"
| "numeric_view sf (PFloat f) = PFloat f"
| "numeric_view sf (PStr s) = (case py_float sf (PStr s) of Inr f \<Rightarrow> PFloat f | Inl e \<Rightarrow> PStr s)"
| "numeric_views sf [] = []"
| "numeric_views sf (x # xs) = numeric_view sf x # numeric_views sf xs"
| "numeric_view_items sf [] = []"
| "numeric_view_items sf ((k, v) # kvs) = (k, numeric_view sf v) # numeric_view_items sf kvs"

text \<open>
  The normalizer as the specification words it: a list whose first two elements are
  numbers or strings is one coordinate, whose first two components are exchanged when
  the heuristic fires and which is otherwise left as it is; any other list is
  normalized element by element; a dict value by value, except under the key
  \<^verbatim>\<open>type\<close>; anything else is returned as it is.
\<close>

fun spec_normalizeCoordinates :: "str2float \<Rightarrow> pyval \<Rightarrow> pyval"
  and spec_normalize_each :: "str2float \<Rightarrow> pyval list \<Rightarrow> pyval list"
  and spec_normalize_items :: "str2float \<Rightarrow> (string \<times> pyval) list \<Rightarrow> (string \<times> pyval) list"
where
  "spec_normalizeCoordinates sf (PList xs) =
     (if 2 \<le> length xs \<and> list_all is_int_float_str (take 2 xs)
      then (if in_envelope sf xs then PList (xs ! 1 # xs ! 0 # drop 2 xs) else PList xs)
      else PList (spec_normalize_each sf xs))"
| "spec_normalizeCoordinates sf (PTuple xs) =
     (if 2 \<le> length xs \<and> list_all is_int_float_str (take 2 xs)
      then (if in_envelope sf xs then PList (xs ! 1 # xs ! 0 # drop 2 xs) else PList xs)
      else PList (spec_normalize_each sf xs))"
| "spec_normalizeCoordinates sf (PDict kvs) = PDict (spec_normalize_items sf kvs)"
| "spec_normalizeCoordinates sf PNone = PNone"
| "spec_normalizeCoordinates sf (PBool b) = PBool b"
| "spec_normalizeCoordinates sf (PInt n) = PInt n"
| "spec_normalizeCoordinates sf (PFloat f) = PFloat f"
| "spec_normalizeCoordinates sf (PStr s) = PStr s"
| "spec_normalize_each sf [] = []"
| "spec_normalize_each sf (x # xs) = spec_normalizeCoordinates sf x # spec_normalize_each sf xs"
| "spec_normalize_items sf [] = []"
| "spec_normalize_items sf ((k, v) # kvs) =
     (k, if k \<noteq> ''type'' then spec_normalizeCoordinates sf v else v) # spec_normalize_items sf kvs"

text \<open>
  Well-formed GeoJSON coordinate data. A number is a float or an integer within the
  double range. A position is a list of two or more numbers. Coordinates are a
  position or a list of nested lists and dicts; a dict is well-formed when every value
  outside its \<^verbatim>\<open>type\<close> key is; a scalar (a name, a type tag) is.
\<close>

fun is_number :: "pyval \<Rightarrow> bool" where
  "is_number (PInt n) = (\<bar>n\<bar> < float_overflow_at)"
| "is_number (PFloat f) = True"
| "is_number _ = False"

fun geojson_structure :: "pyval \<Rightarrow> bool"
  and geojson_elements :: "pyval list \<Rightarrow> bool"
  and geojson_items :: "(string \<times> pyval) list \<Rightarrow> bool"
where
  "geojson_structure (PList xs) =
     ((2 \<le> length xs \<and> list_all is_number xs) \<or> geojson_elements xs)"
| "geojson_structure (PTuple xs) = False"
| "geojson_structure (PDict kvs) = geojson_items kvs"
| "geojson_structure PNone = True"
| "geojson_structure (PBool b) = True"
| "geojson_structure (PInt n) = True"
| "geojson_structure (PFloat f) = True"
| "geojson_structure (PStr s) = True"
| "geojson_elements [] = True"
| "geojson_elements (x # xs) =
     ((case x of PList ys \<Rightarrow> geojson_structure x | PDict kvs \<Rightarrow> geojson_structure x | _ \<Rightarrow> False)
      \<and> geojson_elements xs)"
| "geojson_items [] = True"
| "geojson_items ((k, v) # kvs) = ((k = ''type'' \<or> geojson_structure v) \<and> geojson_items kvs)"

text \<open>
  A numeric-looking string as the number it spells (\<^verbatim>\<open>float(s)\<close>); any other value, and a
  string that spells no number, as it is.
\<close>

fun string_as_number :: "str2float \<Rightarrow> pyval \<Rightarrow> pyval" where
  "string_as_number sf (PStr s) = (case sf s of Some f \<Rightarrow> PFloat f | None \<Rightarrow> PStr s)"
| "string_as_number sf x = x"

fun numeric_string :: "str2float \<Rightarrow> pyval \<Rightarrow> bool" where
  "numeric_string sf (PStr s) = (sf s \<noteq> None)"
| "numeric_string sf x = True"

section \<open>Features and feature collections\<close>

text \<open>Python's truth value of an object (\<^verbatim>\<open>if x:\<close>, \<^verbatim>\<open>not x\<close>).\<close>

fun truthy :: "pyval \<Rightarrow> bool" where
  "truthy PNone = False"
| "truthy (PBool b) = b"
| "truthy (PInt n) = (n \<noteq> 0)"
| "truthy (PFloat f) = (f \<noteq> Fin 0)"
| "truthy (PStr s) = (s \<noteq> [])"
| "truthy (PList xs) = (xs \<noteq> [])"
| "truthy (PTuple xs) = (xs \<noteq> [])"
| "truthy (PDict kvs) = (kvs \<noteq> [])"

text \<open>\<^verbatim>\<open>obj.get(key, default)\<close>: only a dict has the method.\<close>

fun dict_get :: "pyval \<Rightarrow> string \<Rightarrow> pyval \<Rightarrow> pyerr + pyval" where
  "dict_get (PDict kvs) k d = Inr (case map_of kvs k of Some v \<Rightarrow> v | None \<Rightarrow> d)"
| "dict_get _ k d = Inl AttributeError"

text \<open>Whether the string \<open>k\<close> occurs in the string \<open>s\<close> as a run of consecutive characters.\<close>

fun starts_with :: "string \<Rightarrow> string \<Rightarrow> bool" where
  "starts_with [] s = True"
| "starts_with (c # k) [] = False"
| "starts_with (c # k) (d # s) = (c = d \<and> starts_with k s)"

fun substring :: "string \<Rightarrow> string \<Rightarrow> bool" where
  "substring k [] = (k = [])"
| "substring k (c # s) = (starts_with k (c # s) \<or> substring k s)"

text \<open>
  \<^verbatim>\<open>key in obj\<close> for a string key: a key of a dict, an element of a list or tuple, a
  substring of a string; TypeError on anything else.
\<close>

fun py_contains :: "string \<Rightarrow> pyval \<Rightarrow> pyerr + bool" where
  "py_contains k (PDict kvs) = Inr (k \<in> set (map fst kvs))"
| "py_contains k (PList xs) = Inr (PStr k \<in> set xs)"
| "py_contains k (PTuple xs) = Inr (PStr k \<in> set xs)"
| "py_contains k (PStr s) = Inr (substring k s)"
| "py_contains k _ = Inl TypeError"

text \<open>\<^verbatim>\<open>obj[key]\<close> for a string key: KeyError on a dict without it, TypeError off a dict.\<close>

fun py_getitem :: "pyval \<Rightarrow> string \<Rightarrow> pyerr + pyval" where
  "py_getitem (PDict kvs) k = (case map_of kvs k of Some v \<Rightarrow> Inr v | None \<Rightarrow> Inl KeyError)"
| "py_getitem _ k = Inl TypeError"

text \<open>\<^verbatim>\<open>obj[key] = value\<close> for a string key: a present key keeps its place, a new one goes last.\<close>

fun py_setitem :: "pyval \<Rightarrow> string \<Rightarrow> pyval \<Rightarrow> pyerr + pyval" where
  "py_setitem (PDict kvs) k v = Inr (PDict (AList.update k v kvs))"
| "py_setitem _ k v = Inl TypeError"

text \<open>\<^verbatim>\<open>obj[0]\<close>: the keys of the dicts here are strings, so 0 is no key.\<close>

fun py_first :: "pyval \<Rightarrow> pyerr + pyval" where
  "py_first (PList xs) = (case xs of [] \<Rightarrow> Inl IndexError | x # _ \<Rightarrow> Inr x)"
| "py_first (PTuple xs) = (case xs of [] \<Rightarrow> Inl IndexError | x # _ \<Rightarrow> Inr x)"
| "py_first (PStr s) = (case s of [] \<Rightarrow> Inl IndexError | c # _ \<Rightarrow> Inr (PStr [c]))"
| "py_first (PDict kvs) = Inl KeyError"
| "py_first _ = Inl TypeError"

text \<open>\<^verbatim>\<open>for x in obj\<close>: the elements, the keys of a dict, the characters of a string.\<close>

fun py_iter :: "pyval \<Rightarrow> pyerr + pyval list" where
  "py_iter (PList xs) = Inr xs"
| "py_iter (PTuple xs) = Inr xs"
| "py_iter (PDict kvs) = Inr (map (\<lambda>kv. PStr (fst kv)) kvs)"
| "py_iter (PStr s) = Inr (map (\<lambda>c. PStr [c]) s)"
| "py_iter _ = Inl TypeError"

text \<open>\<^verbatim>\<open>x == n\<close> for an integer \<open>n\<close>: numbers compare by value, a bool is 0 or 1.\<close>

fun py_eq_int :: "pyval \<Rightarrow> int \<Rightarrow> bool" where
  "py_eq_int (PInt m) n = (m = n)"
| "py_eq_int (PBool b) n = ((if b then 1 else 0) = n)"
| "py_eq_int (PFloat (Fin r)) n = (r = of_int n)"
| "py_eq_int _ n = False"

text \<open>
  \<^verbatim>\<open>
  def swap_geometry(feature):
      geom = feature.get("geometry")
      if not geom or "type" not in geom or "coordinates" not in geom:
          return feature
      gtype = geom["type"]
      coords = geom["coordinates"]
      new_coords = swap_xy_in_coords(coords)
      feature["geometry"] = {"type": gtype, "coordinates": new_coords}
      return feature
  \<close>
  The feature is updated in place and returned; the model returns the updated value.
\<close>

definition swap_geometry :: "str2float \<Rightarrow> pyval \<Rightarrow> pyerr + pyval" where
  "swap_geometry sf feature =
     bind_err (dict_get feature ''geometry'' PNone) (\<lambda>geom.
     bind_err (if \<not> truthy geom then Inr True
               else bind_err (py_contains ''type'' geom) (\<lambda>t.
                    if \<not> t then Inr True
                    else bind_err (py_contains ''coordinates'' geom) (\<lambda>c. Inr (\<not> c)))) (\<lambda>skip.
     if skip then Inr feature
     else
       bind_err (py_getitem geom ''type'') (\<lambda>gtype.
       bind_err (py_getitem geom ''coordinates'') (\<lambda>coords.
       bind_err (swap_xy_in_coords sf coords) (\<lambda>new_coords.
       py_setitem feature ''geometry''
         (PDict [(''type'', gtype), (''coordinates'', new_coords)]))))))"

text \<open>
  \<^verbatim>\<open>
  def swap_featurecollection(fc):
      if not isinstance(fc, dict) or fc.get("type") != "FeatureCollection":
          return fc
      feats = fc.get("features", [])
      fc["features"] = [swap_geometry(f) for f in feats]
      return fc
  \<close>
\<close>

fun swap_featurecollection :: "str2float \<Rightarrow> pyval \<Rightarrow> pyerr + pyval" where
  "swap_featurecollection sf (PDict kvs) =
     bind_err (dict_get (PDict kvs) ''type'' PNone) (\<lambda>t.
     if t \<noteq> PStr ''FeatureCollection'' then Inr (PDict kvs)
     else
       bind_err (dict_get (PDict kvs) ''features'' (PList [])) (\<lambda>feats.
       bind_err (py_iter feats) (\<lambda>fs.
       bind_err (map_err (swap_geometry sf) fs) (\<lambda>fs'.
       py_setitem (PDict kvs) ''features'' (PList fs')))))"
| "swap_featurecollection sf fc = Inr fc"

section \<open>Fetching a region's geometry\<close>

definition API_BASE_URL :: string where
  "API_BASE_URL = ''https://api.sp3stab.id/api/en''"

text \<open>
  \<^verbatim>\<open>
  def fetch_region_geometry(endpoint, code):
      try:
          response = requests.get(f"{API_BASE_URL}/{endpoint}", params={"code": code}, timeout=15)
          response.raise_for_status()
          result = response.json()
          if result.get("meta", {}).get("code") == 200:
              region_data = result.get("data", {}).get("region")
              if region_data and "features" in region_data:
                  region_data = swap_featurecollection(region_data)
                  return region_data
          return None
      except Exception as e:
          st.error(f"Error fetching geometry for {code}: {e}")
          return None
  \<close>
  The request is a parameter \<open>http\<close>: given the URL and the code it gives the parsed JSON
  body, or the exception of \<^verbatim>\<open>requests.get\<close>, \<^verbatim>\<open>raise_for_status\<close> or \<^verbatim>\<open>json\<close>.
\<close>

type_synonym 'c http_get = "string \<Rightarrow> 'c \<Rightarrow> pyerr + pyval"

definition fetch_region_geometry ::
  "'c http_get \<Rightarrow> str2float \<Rightarrow> string \<Rightarrow> 'c \<Rightarrow> pyerr + pyval option" where
  "fetch_region_geometry http sf endpoint code =
     try_except
       (bind_err (http (API_BASE_URL @ ''/'' @ endpoint) code) (\<lambda>result.
        bind_err (dict_get result ''meta'' (PDict [])) (\<lambda>meta.
        bind_err (dict_get meta ''code'' PNone) (\<lambda>c.
        if py_eq_int c 200 then
          bind_err (dict_get result ''data'' (PDict [])) (\<lambda>data.
          bind_err (dict_get data ''region'' PNone) (\<lambda>region_data.
          bind_err (if truthy region_data then py_contains ''features'' region_data
                    else Inr False) (\<lambda>has_features.
          if has_features then
            bind_err (swap_featurecollection sf region_data) (\<lambda>r. Inr (Some r))
          else Inr None)))
        else Inr None))))
       None"

section \<open>Conversion to an Earth Engine geometry\<close>

text \<open>
  The geopandas and Earth Engine calls of \<^verbatim>\<open>geojson_to_ee_geometry\<close> are parameters: a
  table of type \<open>'g\<close> built by \<^verbatim>\<open>GeoDataFrame.from_features\<close>, its emptiness, its CRS, the
  two CRS operations, and the constructor \<^verbatim>\<open>ee.Geometry\<close> of geometries of type \<open>'e\<close>.
\<close>

record ('e, 'g) geo_lib =
  from_features :: "pyval \<Rightarrow> pyerr + 'g"
  gdf_empty :: "'g \<Rightarrow> bool"
  gdf_crs :: "'g \<Rightarrow> string option"
  set_crs :: "string \<Rightarrow> 'g \<Rightarrow> pyerr + 'g"
  to_crs :: "string \<Rightarrow> 'g \<Rightarrow> pyerr + 'g"
  ee_Geometry :: "pyval \<Rightarrow> pyerr + 'e"

text \<open>
  \<^verbatim>\<open>
        if gdf.crs is None:
            gdf.set_crs("EPSG:4326", inplace=True)
        elif gdf.crs != "EPSG:4326":
            gdf = gdf.to_crs("EPSG:4326")
  \<close>
\<close>

definition ensure_wgs84 :: "('e, 'g) geo_lib \<Rightarrow> 'g \<Rightarrow> pyerr + 'g" where
  "ensure_wgs84 lib gdf =
     (case gdf_crs lib gdf of
        None \<Rightarrow> set_crs lib ''EPSG:4326'' gdf
      | Some crs \<Rightarrow> if crs \<noteq> ''EPSG:4326'' then to_crs lib ''EPSG:4326'' gdf else Inr gdf)"

text \<open>
  \<^verbatim>\<open>
  def geojson_to_ee_geometry(geojson_data):
      try:
          if not geojson_data or "features" not in geojson_data:
              return None, None
          gdf = gpd.GeoDataFrame.from_features(geojson_data["features"])
          if gdf.empty:
              return None, None
          ... (the CRS, above)
          feature = geojson_data["features"][0]
          ee_geom = ee.Geometry(feature["geometry"])
          return ee_geom, gdf
      except Exception as e:
          st.error(f"Error converting geometry: {e}")
          return None, None
  \<close>
\<close>

definition geojson_to_ee_geometry ::
  "('e, 'g) geo_lib \<Rightarrow> pyval \<Rightarrow> pyerr + ('e option \<times> 'g option)" where
  "geojson_to_ee_geometry lib geojson_data =
     try_except
       (bind_err (if \<not> truthy geojson_data then Inr True
                  else bind_err (py_contains ''features'' geojson_data) (\<lambda>c. Inr (\<not> c))) (\<lambda>absent.
        if absent then Inr (None, None)
        else
          bind_err (py_getitem geojson_data ''features'') (\<lambda>features.
          bind_err (from_features lib features) (\<lambda>gdf.
          if gdf_empty lib gdf then Inr (None, None)
          else
            bind_err (ensure_wgs84 lib gdf) (\<lambda>gdf'.
            bind_err (py_getitem geojson_data ''features'') (\<lambda>features'.
            bind_err (py_first features') (\<lambda>feature.
            bind_err (py_getitem feature ''geometry'') (\<lambda>geometry.
            bind_err (ee_Geometry lib geometry) (\<lambda>ee_geom.
            Inr (Some ee_geom, Some gdf'))))))))))
       (None, None)"

subsection \<open>An example response\<close>

text \<open>
  A region of two point features, the first in lat, lon order, and a boundary service
  that knows the province with code 11 only.
\<close>

definition example_feature :: "string \<Rightarrow> pyval \<Rightarrow> pyval" where
  "example_feature name coordinates =
     PDict [(''type'', PStr ''Feature''),
            (''properties'', PDict [(''name'', PStr name)]),
            (''geometry'', PDict [(''type'', PStr ''Point''), (''coordinates'', coordinates)])]"

definition example_region :: pyval where
  "example_region =
     PDict [(''type'', PStr ''FeatureCollection''),
            (''features'', PList [example_feature ''ACEH'' (PList [PFloat (Fin 4.7), PFloat (Fin 96.7)]),
                                 example_feature ''SABANG'' (PList [PFloat (Fin 95.3), PFloat (Fin 5.9)])])]"

definition example_http :: "string http_get" where
  "example_http url code =
     (if url = ''https://api.sp3stab.id/api/en/province'' \<and> code = ''11''
      then Inr (PDict [(''meta'', PDict [(''code'', PInt 200)]),
                       (''data'', PDict [(''region'', example_region)])])
      else Inl RequestError)"

text \<open>
  A stand-in for the two libraries: the table is the list of features, never empty of
  a CRS question; the Earth Engine geometry is the GeoJSON geometry itself.
\<close>

definition example_lib :: "(pyval, pyval list) geo_lib" where
  "example_lib =
     \<lparr>from_features = py_iter, gdf_empty = (\<lambda>g. g = []), gdf_crs = (\<lambda>g. None),
      set_crs = (\<lambda>crs g. Inr g), to_crs = (\<lambda>crs g. Inr g), ee_Geometry = Inr\<rparr>"

section \<open>Administrative selection of the area of interest\<close>

text \<open>
  The branch \<^verbatim>\<open>aoi_mode == "Batas Wilayah Indonesia"\<close> of the script. What the script
  asks of the outside is recorded as a list of calls, in order: a call of
  \<^verbatim>\<open>fetch_region_dropdown(endpoint, parent_code)\<close> or of
  \<^verbatim>\<open>fetch_region_geometry(endpoint, code)\<close>. Codes have type \<open>'c\<close>.
\<close>

datatype 'c call = DropdownCall string "'c option" | GeometryCall string 'c

text \<open>
  The services the branch calls: the dropdown fetch (a dict of names to codes, empty
  on failure), the geometry fetch and the conversion.
\<close>

record ('c, 'e, 'g) services =
  fetch_dropdown :: "string \<Rightarrow> 'c option \<Rightarrow> (string \<times> 'c) list"
  fetch_geometry :: "string \<Rightarrow> 'c \<Rightarrow> pyval option"
  to_ee :: "pyval \<Rightarrow> 'e option \<times> 'g option"

text \<open>What the user has picked in the four select boxes.\<close>

record selections =
  province_select :: string
  city_select :: string
  district_select :: string
  village_select :: string

text \<open>The variables the branch sets, the session state it writes and the calls made.\<close>

record ('c, 'e, 'g) aoi_state =
  calls :: "'c call list"
  aoi :: "'e option"
  preview_gdf :: "'g option"
  region_name :: string
  selected_province :: "(string \<times> 'c) option"
  selected_city :: "(string \<times> 'c) option"
  selected_district :: "(string \<times> 'c) option"

definition initial_state :: "('c, 'e, 'g) aoi_state" where
  "initial_state =
     \<lparr>calls = [], aoi = None, preview_gdf = None, region_name = [],
      selected_province = None, selected_city = None, selected_district = None\<rparr>"

text \<open>
  \<^verbatim>\<open>st.selectbox(label, options)\<close>: the picked option, or the first option when the pick
  is not among the options (the default index is 0).
\<close>

fun selectbox :: "string list \<Rightarrow> string \<Rightarrow> string" where
  "selectbox [] pick = pick"
| "selectbox (first # options) pick = (if pick \<in> set (first # options) then pick else first)"

text \<open>\<^verbatim>\<open>data[name]\<close> on the dict of a dropdown.\<close>

definition lookup_code :: "(string \<times> 'c) list \<Rightarrow> string \<Rightarrow> pyerr + 'c" where
  "lookup_code data name = (case map_of data name of None \<Rightarrow> Inl KeyError | Some c \<Rightarrow> Inr c)"

text \<open>
  The block that loads a boundary; it occurs four times, with the level's endpoint:
  \<^verbatim>\<open>
      region_name = ...
      geojson_data = fetch_region_geometry(endpoint, code)
      if geojson_data:
          aoi, preview_gdf = geojson_to_ee_geometry(geojson_data)
  \<close>
\<close>

definition load_geometry ::
  "('c, 'e, 'g) services \<Rightarrow> string \<Rightarrow> 'c \<Rightarrow> string \<Rightarrow> ('c, 'e, 'g) aoi_state \<Rightarrow> ('c, 'e, 'g) aoi_state"
where
  "load_geometry srv endpoint code name st =
     (let st1 = st\<lparr>region_name := name, calls := calls st @ [GeometryCall endpoint code]\<rparr> in
      case fetch_geometry srv endpoint code of
        None \<Rightarrow> st1
      | Some geojson_data \<Rightarrow>
          if truthy geojson_data
          then (case to_ee srv geojson_data of (a, g) \<Rightarrow> st1\<lparr>aoi := a, preview_gdf := g\<rparr>)
          else st1)"

text \<open>Level 4, entered with a district chosen.\<close>

definition village_level ::
  "('c, 'e, 'g) services \<Rightarrow> selections \<Rightarrow> string \<Rightarrow> 'c \<Rightarrow> ('c, 'e, 'g) aoi_state
     \<Rightarrow> pyerr + ('c, 'e, 'g) aoi_state"
where
  "village_level srv sel district_name district_code st =
     (let st1 = st\<lparr>calls := calls st @ [DropdownCall ''village'' (Some district_code)]\<rparr>;
          villages_data = fetch_dropdown srv ''village'' (Some district_code)
      in if villages_data = [] then Inr st1
         else
           let selected_village_name =
                 selectbox ([''-- Pilih Kelurahan/Desa --'', ''-- Gunakan Kecamatan --'']
                            @ map fst villages_data) (village_select sel)
           in if selected_village_name = ''-- Gunakan Kecamatan --''
              then Inr (load_geometry srv ''district'' district_code district_name st1)
              else if selected_village_name \<noteq> ''-- Pilih Kelurahan/Desa --''
              then bind_err (lookup_code villages_data selected_village_name) (\<lambda>village_code.
                     Inr (load_geometry srv ''village'' village_code selected_village_name st1))
              else Inr st1)"

text \<open>Level 3, entered with a city chosen.\<close>

definition district_level ::
  "('c, 'e, 'g) services \<Rightarrow> selections \<Rightarrow> string \<Rightarrow> 'c \<Rightarrow> ('c, 'e, 'g) aoi_state
     \<Rightarrow> pyerr + ('c, 'e, 'g) aoi_state"
where
  "district_level srv sel city_name city_code st =
     (let st1 = st\<lparr>calls := calls st @ [DropdownCall ''district'' (Some city_code)]\<rparr>;
          districts_data = fetch_dropdown srv ''district'' (Some city_code)
      in if districts_data = [] then Inr st1
         else
           let selected_district_name =
                 selectbox ([''-- Pilih Kecamatan --'', ''-- Gunakan Kabupaten/Kota --'']
                            @ map fst districts_data) (district_select sel)
           in if selected_district_name = ''-- Gunakan Kabupaten/Kota --''
              then Inr (load_geometry srv ''city'' city_code city_name st1)
              else if selected_district_name \<noteq> ''-- Pilih Kecamatan --''
              then bind_err (lookup_code districts_data selected_district_name) (\<lambda>district_code.
                     village_level srv sel selected_district_name district_code
                       (st1\<lparr>selected_district := Some (selected_district_name, district_code)\<rparr>))
              else Inr st1)"

text \<open>Level 2, entered with a province chosen.\<close>

definition city_level ::
  "('c, 'e, 'g) services \<Rightarrow> selections \<Rightarrow> string \<Rightarrow> 'c \<Rightarrow> ('c, 'e, 'g) aoi_state
     \<Rightarrow> pyerr + ('c, 'e, 'g) aoi_state"
where
  "city_level srv sel province_name province_code st =
     (let st1 = st\<lparr>calls := calls st @ [DropdownCall ''city'' (Some province_code)]\<rparr>;
          cities_data = fetch_dropdown srv ''city'' (Some province_code)
      in if cities_data = [] then Inr st1
         else
           let selected_city_name =
                 selectbox ([''-- Pilih Kabupaten/Kota --'', ''-- Gunakan Provinsi --'']
                            @ map fst cities_data) (city_select sel)
           in if selected_city_name = ''-- Gunakan Provinsi --''
              then Inr (load_geometry srv ''province'' province_code province_name st1)
              else if selected_city_name \<noteq> ''-- Pilih Kabupaten/Kota --''
              then bind_err (lookup_code cities_data selected_city_name) (\<lambda>city_code.
                     district_level srv sel selected_city_name city_code
                       (st1\<lparr>selected_city := Some (selected_city_name, city_code)\<rparr>))
              else Inr st1)"

text \<open>Level 1: the whole branch.\<close>

definition admin_boundary_mode ::
  "('c, 'e, 'g) services \<Rightarrow> selections \<Rightarrow> pyerr + ('c, 'e, 'g) aoi_state"
where
  "admin_boundary_mode srv sel =
     (let st1 = initial_state\<lparr>calls := [DropdownCall ''province'' None]\<rparr>;
          provinces_data = fetch_dropdown srv ''province'' None
      in if provinces_data = [] then Inr st1
         else
           let selected_province_name =
                 selectbox (''-- Pilih Provinsi --'' # map fst provinces_data) (province_select sel)
           in if selected_province_name \<noteq> ''-- Pilih Provinsi --''
              then bind_err (lookup_code provinces_data selected_province_name) (\<lambda>province_code.
                     city_level srv sel selected_province_name province_code
                       (st1\<lparr>selected_province := Some (selected_province_name, province_code)\<rparr>))
              else Inr st1)"

text \<open>An example: one province with one city, and the pick of the province boundary.\<close>

definition example_services :: "(string, pyval, pyval list) services" where
  "example_services =
     \<lparr>fetch_dropdown = (\<lambda>endpoint parent.
         if endpoint = ''province'' then [(''ACEH'', ''11'')]
         else if endpoint = ''city'' \<and> parent = Some ''11'' then [(''KOTA SABANG'', ''1172'')]
         else []),
      fetch_geometry = (\<lambda>endpoint code.
         case fetch_region_geometry example_http (\<lambda>s. None) endpoint code of
           Inl e \<Rightarrow> None | Inr r \<Rightarrow> r),
      to_ee = (\<lambda>d. case geojson_to_ee_geometry example_lib d of
           Inl e \<Rightarrow> (None, None) | Inr r \<Rightarrow> r)\<rparr>"

definition example_selections :: selections where
  "example_selections =
     \<lparr>province_select = ''ACEH'', city_select = ''-- Gunakan Provinsi --'',
      district_select = [], village_select = []\<rparr>"

section \<open>Vegetation indices\<close>

text \<open>
  The catalog \<^verbatim>\<open>VEGETATION_INDICES\<close>. The key \<^verbatim>\<open>range\<close> of the source is the field
  \<open>idx_range\<close>; every field has the prefix \<open>idx\<close>.
\<close>

record index_info =
  idx_name :: string
  idx_formula :: string
  idx_bands :: "string list"
  idx_range :: "int \<times> int"
  idx_description :: string
  idx_palette :: "string list"

definition VEGETATION_INDICES :: "(string \<times> index_info) list" where
  "VEGETATION_INDICES =
    [(''NDVI'', \<lparr>idx_name = ''Normalized Difference Vegetation Index'',
        idx_formula = ''(NIR - RED) / (NIR + RED)'', idx_bands = [''B8'', ''B4''],
        idx_range = (-1, 1), idx_description = ''Kesehatan vegetasi umum'',
        idx_palette = [''#8B4513'', ''#FFFF00'', ''#90EE90'', ''#006400'']\<rparr>),
     (''NDWI'', \<lparr>idx_name = ''Normalized Difference Water Index'',
        idx_formula = ''(GREEN - NIR) / (GREEN + NIR)'', idx_bands = [''B3'', ''B8''],
        idx_range = (-1, 1), idx_description = ''Kandungan air pada vegetasi'',
        idx_palette = [''#8B4513'', ''#F5DEB3'', ''#87CEEB'', ''#0000FF'']\<rparr>),
     (''MNDWI'', \<lparr>idx_name = ''Modified NDWI'',
        idx_formula = ''(GREEN - SWIR) / (GREEN + SWIR)'', idx_bands = [''B3'', ''B11''],
        idx_range = (-1, 1), idx_description = ''Deteksi badan air'',
        idx_palette = [''#FFFFE0'', ''#98FB98'', ''#4682B4'', ''#000080'']\<rparr>),
     (''NDBI'', \<lparr>idx_name = ''Normalized Difference Built-up Index'',
        idx_formula = ''(SWIR - NIR) / (SWIR + NIR)'', idx_bands = [''B11'', ''B8''],
        idx_range = (-1, 1), idx_description = ''Area terbangun'',
        idx_palette = [''#006400'', ''#90EE90'', ''#FFD700'', ''#FF0000'']\<rparr>),
     (''EVI'', \<lparr>idx_name = ''Enhanced Vegetation Index'',
        idx_formula = ''2.5 * (NIR - RED) / (NIR + 6*RED - 7.5*BLUE + 1)'',
        idx_bands = [''B8'', ''B4'', ''B2''],
        idx_range = (-1, 1), idx_description = ''Vegetasi dengan koreksi atmosfer'',
        idx_palette = [''#8B4513'', ''#FFFF00'', ''#90EE90'', ''#006400'']\<rparr>),
     (''SAVI'', \<lparr>idx_name = ''Soil Adjusted Vegetation Index'',
        idx_formula = ''1.5 * (NIR - RED) / (NIR + RED + 0.5)'', idx_bands = [''B8'', ''B4''],
        idx_range = (-1, 1), idx_description = ''Vegetasi dengan koreksi tanah'',
        idx_palette = [''#8B4513'', ''#FFFF00'', ''#90EE90'', ''#006400'']\<rparr>),
     (''BSI'', \<lparr>idx_name = ''Bare Soil Index'',
        idx_formula = ''(SWIR + RED - NIR - BLUE) / (SWIR + RED + NIR + BLUE)'',
        idx_bands = [''B11'', ''B4'', ''B8'', ''B2''],
        idx_range = (-1, 1), idx_description = ''Tanah terbuka'',
        idx_palette = [''#006400'', ''#90EE90'', ''#DEB887'', ''#8B4513'']\<rparr>),
     (''NDMI'', \<lparr>idx_name = ''Normalized Difference Moisture Index'',
        idx_formula = ''(NIR - SWIR) / (NIR + SWIR)'', idx_bands = [''B8'', ''B11''],
        idx_range = (-1, 1), idx_description = ''Kelembaban vegetasi'',
        idx_palette = [''#8B4513'', ''#D2691E'', ''#90EE90'', ''#006400'']\<rparr>)]"

text \<open>
  An Earth Engine image is an expression that the client builds and the service
  evaluates; the methods the script calls are the constructors. A number given where an
  image is expected is a constant image.
\<close>

datatype image =
    Composite
  | Constant real
  | Select image string
  | Add image image
  | Subtract image image
  | Multiply image image
  | Divide image image
  | NormalizedDifference image "string list"
  | Rename image string

text \<open>
  \<^verbatim>\<open>
  def calculate_index(image, index_name):
      index_info = VEGETATION_INDICES[index_name]
      if index_name == "EVI":
          nir = image.select('B8'); red = image.select('B4'); blue = image.select('B2')
          evi = nir.subtract(red).multiply(2.5).divide(
              nir.add(red.multiply(6)).subtract(blue.multiply(7.5)).add(1))
          return evi.rename(index_name)
      elif index_name == "SAVI":
          nir = image.select('B8'); red = image.select('B4')
          savi = nir.subtract(red).divide(nir.add(red).add(0.5)).multiply(1.5)
          return savi.rename(index_name)
      elif index_name == "BSI":
          blue = image.select('B2'); red = image.select('B4')
          nir = image.select('B8'); swir = image.select('B11')
          bsi = swir.add(red).subtract(nir).subtract(blue).divide(
              swir.add(red).add(nir).add(blue))
          return bsi.rename(index_name)
      else:
          bands = index_info["bands"]
          return image.normalizedDifference(bands).rename(index_name)
  \<close>
\<close>

definition calculate_index :: "image \<Rightarrow> string \<Rightarrow> pyerr + image" where
  "calculate_index img index_name =
     (case map_of VEGETATION_INDICES index_name of
        None \<Rightarrow> Inl KeyError
      | Some index_info \<Rightarrow>
          if index_name = ''EVI'' then
            (let nir = Select img ''B8''; red = Select img ''B4''; blue = Select img ''B2'';
                 evi = Divide (Multiply (Subtract nir red) (Constant 2.5))
                         (Add (Subtract (Add nir (Multiply red (Constant 6)))
                                 (Multiply blue (Constant 7.5))) (Constant 1))
             in Inr (Rename evi index_name))
          else if index_name = ''SAVI'' then
            (let nir = Select img ''B8''; red = Select img ''B4'';
                 savi = Multiply (Divide (Subtract nir red) (Add (Add nir red) (Constant 0.5)))
                          (Constant 1.5)
             in Inr (Rename savi index_name))
          else if index_name = ''BSI'' then
            (let blue = Select img ''B2''; red = Select img ''B4'';
                 nir = Select img ''B8''; swir = Select img ''B11'';
                 bsi = Divide (Subtract (Subtract (Add swir red) nir) blue)
                         (Add (Add (Add swir red) nir) blue)
             in Inr (Rename bsi index_name))
          else Inr (Rename (NormalizedDifference img (idx_bands index_info)) index_name))"

text \<open>
  The value of an image expression at one pixel, as Earth Engine documents its
  operators, over exact real arithmetic: the pixel's bands as a list of names with
  values, \<open>None\<close> where the service reports an error (a band that is not there, band
  counts that do not match). With one band on either side, a binary operator pairs it
  with every band of the other side; with equally many bands it pairs them in order;
  the result carries the names of the longer side, or of the left. A quotient by zero
  is 0, which is Earth Engine's rule for \<^verbatim>\<open>divide\<close> and HOL's for \<open>/\<close>. Masked pixels and
  the service's floating-point rounding are outside the model.
\<close>

definition combine ::
  "(real \<Rightarrow> real \<Rightarrow> real) \<Rightarrow> (string \<times> real) list \<Rightarrow> (string \<times> real) list
     \<Rightarrow> (string \<times> real) list option"
where
  "combine f xs ys =
     (case ys of
        [(n, y)] \<Rightarrow> Some (map (\<lambda>(m, x). (m, f x y)) xs)
      | _ \<Rightarrow>
        (case xs of
           [(m, x)] \<Rightarrow> Some (map (\<lambda>(n, y). (n, f x y)) ys)
         | _ \<Rightarrow> if length xs = length ys
                then Some (map (\<lambda>((m, x), (n, y)). (m, f x y)) (zip xs ys))
                else None))"

definition combine_opt ::
  "(real \<Rightarrow> real \<Rightarrow> real) \<Rightarrow> (string \<times> real) list option \<Rightarrow> (string \<times> real) list option
     \<Rightarrow> (string \<times> real) list option"
where
  "combine_opt f a b =
     (case a of None \<Rightarrow> None
      | Some xs \<Rightarrow> (case b of None \<Rightarrow> None | Some ys \<Rightarrow> combine f xs ys))"

fun pixel :: "(string \<times> real) list \<Rightarrow> image \<Rightarrow> (string \<times> real) list option" where
  "pixel c Composite = Some c"
| "pixel c (Constant k) = Some [(''constant'', k)]"
| "pixel c (Select img b) =
     (case pixel c img of None \<Rightarrow> None
      | Some bs \<Rightarrow> (case map_of bs b of None \<Rightarrow> None | Some v \<Rightarrow> Some [(b, v)]))"
| "pixel c (Add a b) = combine_opt (\<lambda>x y. x + y) (pixel c a) (pixel c b)"
| "pixel c (Subtract a b) = combine_opt (\<lambda>x y. x - y) (pixel c a) (pixel c b)"
| "pixel c (Multiply a b) = combine_opt (\<lambda>x y. x * y) (pixel c a) (pixel c b)"
| "pixel c (Divide a b) = combine_opt (\<lambda>x y. x / y) (pixel c a) (pixel c b)"
| "pixel c (NormalizedDifference img bs) =
     (case pixel c img of None \<Rightarrow> None
      | Some vs \<Rightarrow>
        (case bs of
           [b1, b2] \<Rightarrow>
             (case (map_of vs b1, map_of vs b2) of
                (Some x, Some y) \<Rightarrow> Some [(''nd'', (x - y) / (x + y))]
              | _ \<Rightarrow> None)
         | _ \<Rightarrow> None))"
| "pixel c (Rename img n) =
     (case pixel c img of Some [(m, v)] \<Rightarrow> Some [(n, v)] | _ \<Rightarrow> None)"

text \<open>The bands of an index of the composite at a pixel with the bands \<open>c\<close>.\<close>

definition index_at :: "(string \<times> real) list \<Rightarrow> string \<Rightarrow> (string \<times> real) list option" where
  "index_at c index_name =
     (case calculate_index Composite index_name of Inl e \<Rightarrow> None | Inr img \<Rightarrow> pixel c img)"

section \<open>Land-cover statistics\<close>

text \<open>The legends \<^verbatim>\<open>LAND_COVER_LEGENDS\<close>: per dataset, class code to color and label.\<close>

record legend_entry =
  color :: string
  label :: string

type_synonym legend = "(string \<times> legend_entry) list"

definition ESA_WorldCover :: legend where
  "ESA_WorldCover =
    [(''10'', \<lparr>color = ''#006400'', label = ''Trees''\<rparr>),
     (''20'', \<lparr>color = ''#ffbb22'', label = ''Shrubland''\<rparr>),
     (''30'', \<lparr>color = ''#ffff4c'', label = ''Grassland''\<rparr>),
     (''40'', \<lparr>color = ''#f096ff'', label = ''Cropland''\<rparr>),
     (''50'', \<lparr>color = ''#fa0000'', label = ''Built-up''\<rparr>),
     (''60'', \<lparr>color = ''#b4b4b4'', label = ''Barren/sparse vegetation''\<rparr>),
     (''70'', \<lparr>color = ''#f0f0f0'', label = ''Snow and ice''\<rparr>),
     (''80'', \<lparr>color = ''#0032c8'', label = ''Open water''\<rparr>),
     (''90'', \<lparr>color = ''#0096a0'', label = ''Herbaceous wetland''\<rparr>),
     (''95'', \<lparr>color = ''#00cf75'', label = ''Mangroves''\<rparr>),
     (''100'', \<lparr>color = ''#fae6a0'', label = ''Moss and lichen''\<rparr>)]"

definition ESRI_LandCover :: legend where
  "ESRI_LandCover =
    [(''1'', \<lparr>color = ''#1A5BAB'', label = ''Water''\<rparr>),
     (''2'', \<lparr>color = ''#358221'', label = ''Trees''\<rparr>),
     (''3'', \<lparr>color = ''#A7D282'', label = ''Grass''\<rparr>),
     (''4'', \<lparr>color = ''#87D19E'', label = ''Flooded Vegetation''\<rparr>),
     (''5'', \<lparr>color = ''#FFDB5C'', label = ''Crops''\<rparr>),
     (''6'', \<lparr>color = ''#EECFA8'', label = ''Scrub/Shrub''\<rparr>),
     (''7'', \<lparr>color = ''#ED022A'', label = ''Built Area''\<rparr>),
     (''8'', \<lparr>color = ''#EDE9E4'', label = ''Bare Ground''\<rparr>),
     (''9'', \<lparr>color = ''#F2FAFF'', label = ''Snow/Ice''\<rparr>),
     (''10'', \<lparr>color = ''#C8C8C8'', label = ''Clouds''\<rparr>)]"

definition Dynamic_World :: legend where
  "Dynamic_World =
    [(''0'', \<lparr>color = ''#419BDF'', label = ''Water''\<rparr>),
     (''1'', \<lparr>color = ''#397D49'', label = ''Trees''\<rparr>),
     (''2'', \<lparr>color = ''#88B053'', label = ''Grass''\<rparr>),
     (''3'', \<lparr>color = ''#7A87C6'', label = ''Flooded vegetation''\<rparr>),
     (''4'', \<lparr>color = ''#E49635'', label = ''Crops''\<rparr>),
     (''5'', \<lparr>color = ''#DFC35A'', label = ''Shrub & Scrub''\<rparr>),
     (''6'', \<lparr>color = ''#C4281B'', label = ''Built Area''\<rparr>),
     (''7'', \<lparr>color = ''#A59B8F'', label = ''Bare ground''\<rparr>),
     (''8'', \<lparr>color = ''#B39FE1'', label = ''Snow & Ice''\<rparr>)]"

definition LAND_COVER_LEGENDS :: "(string \<times> legend) list" where
  "LAND_COVER_LEGENDS =
    [(''ESA_WorldCover'', ESA_WorldCover), (''ESRI_LandCover'', ESRI_LandCover),
     (''Dynamic_World'', Dynamic_World)]"

















section \<open>Properties of the coordinate heuristic\<close>

lemma fle_Fin_left: "fle (Fin a) f = (case f of Fin b \<Rightarrow> a \<le> b | PosInf \<Rightarrow> True | _ \<Rightarrow> False)"
  by (cases f) simp_all

lemma fle_Fin_right: "fle f (Fin b) = (case f of Fin a \<Rightarrow> a \<le> b | NegInf \<Rightarrow> True | _ \<Rightarrow> False)"
  by (cases f) simp_all

lemma looks_like_latlon_seq:
  "seq_items p = Some xs \<Longrightarrow> looks_like_latlon sf p = Inr (in_envelope sf xs)"
  by (auto simp: looks_like_latlon_def in_envelope_def bind_err_def LAT_MIN_def LAT_MAX_def
        LON_MIN_def LON_MAX_def fle_Fin_left fle_Fin_right
      split: sum.splits pyfloat.splits)

lemma looks_like_latlon_not_seq:
  "seq_items p = None \<Longrightarrow> looks_like_latlon sf p = Inr False"
  by (simp add: looks_like_latlon_def)

text \<open>
  Claim C1. \<^verbatim>\<open>looks_like_latlon\<close> never raises. It returns true exactly when its
  argument is a list or tuple of at least two elements whose first two elements
  \<^verbatim>\<open>float()\<close> converts to finite numbers, the first in \<open>[-11.5, 6.5]\<close> and the second in
  \<open>[94.0, 141.5]\<close>. On an argument that is no list or tuple, that has fewer than two
  elements, or whose first or second element \<^verbatim>\<open>float()\<close> rejects, it returns false.
\<close>

theorem looks_like_latlon_iff_envelope:
  "(\<exists>r. looks_like_latlon sf pair = Inr r) \<and>
   (looks_like_latlon sf pair = Inr True \<longleftrightarrow>
      (\<exists>xs a b. seq_items pair = Some xs \<and> 2 \<le> length xs \<and>
         py_float sf (xs ! 0) = Inr (Fin a) \<and> py_float sf (xs ! 1) = Inr (Fin b) \<and>
         -11.5 \<le> a \<and> a \<le> 6.5 \<and> 94.0 \<le> b \<and> b \<le> 141.5)) \<and>
   (seq_items pair = None \<or>
    (\<exists>xs. seq_items pair = Some xs \<and>
       (length xs < 2 \<or> (\<exists>e. py_float sf (xs ! 0) = Inl e) \<or> (\<exists>e. py_float sf (xs ! 1) = Inl e)))
    \<longrightarrow> looks_like_latlon sf pair = Inr False)"
proof (cases "seq_items pair")
  case None
  then show ?thesis by (auto simp: looks_like_latlon_not_seq)
next
  case (Some xs)
  have eq: "looks_like_latlon sf pair = Inr (in_envelope sf xs)"
    using Some by (rule looks_like_latlon_seq)
  have env: "in_envelope sf xs \<longleftrightarrow>
      (2 \<le> length xs \<and> (\<exists>a b. py_float sf (xs ! 0) = Inr (Fin a) \<and> py_float sf (xs ! 1) = Inr (Fin b) \<and>
         -11.5 \<le> a \<and> a \<le> 6.5 \<and> 94.0 \<le> b \<and> b \<le> 141.5))"
    by (cases "py_float sf (xs ! 0)"; cases "py_float sf (xs ! 1)")
       (auto simp: in_envelope_def split: pyfloat.splits)
  show ?thesis
    unfolding eq using Some env by auto
qed

text \<open>
  The theorem at \<open>[-6.2, 106.8]\<close> (true), \<open>[106.8, -6.2]\<close> (false), \<open>["x", 100]\<close>
  (the first element is not a number) and the integer \<open>5\<close> (no list).
\<close>

theorem looks_like_latlon_iff_envelope_witness:
  "looks_like_latlon (\<lambda>s. None) (PList [PFloat (Fin (-6.2)), PFloat (Fin 106.8)]) = Inr True \<and>
   looks_like_latlon (\<lambda>s. None) (PList [PFloat (Fin 106.8), PFloat (Fin (-6.2))]) = Inr False \<and>
   looks_like_latlon (\<lambda>s. None) (PList [PStr ''x'', PInt 100]) = Inr False \<and>
   looks_like_latlon (\<lambda>s. None) (PInt 5) = Inr False"
proof -
  let ?sf = "\<lambda>s::string. None :: pyfloat option"
  have a: "\<exists>xs a b. seq_items (PList [PFloat (Fin (-6.2)), PFloat (Fin 106.8)]) = Some xs \<and> 2 \<le> length xs \<and>
         py_float ?sf (xs ! 0) = Inr (Fin a) \<and> py_float ?sf (xs ! 1) = Inr (Fin b) \<and>
         -11.5 \<le> a \<and> a \<le> 6.5 \<and> 94.0 \<le> b \<and> b \<le> 141.5"
    by (rule exI [of _ "[PFloat (Fin (-6.2)), PFloat (Fin 106.8)]"], rule exI [of _ "-6.2"],
        rule exI [of _ "106.8"]) simp
  have b: "\<not> (\<exists>xs a b. seq_items (PList [PFloat (Fin 106.8), PFloat (Fin (-6.2))]) = Some xs \<and> 2 \<le> length xs \<and>
         py_float ?sf (xs ! 0) = Inr (Fin a) \<and> py_float ?sf (xs ! 1) = Inr (Fin b) \<and>
         -11.5 \<le> a \<and> a \<le> 6.5 \<and> 94.0 \<le> b \<and> b \<le> 141.5)"
    by simp
  have c: "\<exists>xs. seq_items (PList [PStr ''x'', PInt 100]) = Some xs \<and>
       (length xs < 2 \<or> (\<exists>e. py_float ?sf (xs ! 0) = Inl e) \<or> (\<exists>e. py_float ?sf (xs ! 1) = Inl e))"
    by simp
  have d: "seq_items (PInt 5) = None" by simp
  have r1: "looks_like_latlon ?sf (PList [PFloat (Fin (-6.2)), PFloat (Fin 106.8)]) = Inr True"
    by (rule iffD2 [OF conjunct1 [OF conjunct2 [OF looks_like_latlon_iff_envelope]] a])
  obtain r where r: "looks_like_latlon ?sf (PList [PFloat (Fin 106.8), PFloat (Fin (-6.2))]) = Inr r"
    using conjunct1 [OF looks_like_latlon_iff_envelope] by blast
  have "\<not> r"
    using r b conjunct1 [OF conjunct2 [OF looks_like_latlon_iff_envelope
        [of ?sf "PList [PFloat (Fin 106.8), PFloat (Fin (-6.2))]"]]]
    by (cases r) simp_all
  with r have r2: "looks_like_latlon ?sf (PList [PFloat (Fin 106.8), PFloat (Fin (-6.2))]) = Inr False"
    by simp
  have r3: "looks_like_latlon ?sf (PList [PStr ''x'', PInt 100]) = Inr False"
    by (rule mp [OF conjunct2 [OF conjunct2 [OF looks_like_latlon_iff_envelope]] disjI2 [OF c]])
  have r4: "looks_like_latlon ?sf (PInt 5) = Inr False"
    by (rule mp [OF conjunct2 [OF conjunct2 [OF looks_like_latlon_iff_envelope]] disjI1 [OF d]])
  show ?thesis
    using r1 r2 r3 r4 by simp
qed

section \<open>Properties of the axis normalizer\<close>

lemma bind_err_Inr_iff:
  "bind_err m f = Inr y \<longleftrightarrow> (\<exists>v. m = Inr v \<and> f v = Inr y)"
  by (cases m) (simp_all add: bind_err_def)

lemma bind_err_simps [simp]:
  "bind_err (Inr v) f = f v" "bind_err (Inl e) f = Inl e"
  by (simp_all add: bind_err_def)

lemma map_err_Inr_iff:
  "map_err f xs = Inr ys \<longleftrightarrow> list_all2 (\<lambda>x y. f x = Inr y) xs ys"
proof (induction xs arbitrary: ys)
  case Nil
  show ?case by auto
next
  case (Cons x xs)
  show ?case
    by (cases ys) (auto simp: bind_err_Inr_iff Cons.IH)
qed

lemma swap_each_map_err: "swap_each sf xs = map_err (swap_xy_in_coords sf) xs"
  by (induction xs) simp_all

lemma shapes_of_map: "shapes_of xs = map shape_of xs"
  by (induction xs) simp_all

lemma numeric_views_map: "numeric_views sf xs = map (numeric_view sf) xs"
  by (induction xs) simp_all

lemma spec_normalize_each_map: "spec_normalize_each sf xs = map (spec_normalizeCoordinates sf) xs"
  by (induction xs) simp_all

lemma py_float_scalar:
  "py_float sf x = Inr f \<Longrightarrow> shape_of x = Scalar \<and> numeric_view sf x = PFloat f \<and> is_int_float_str x"
  by (cases x) (auto split: if_splits option.splits)

lemma float_if_str_props:
  "float_if_str sf x = Inr y \<Longrightarrow>
     shape_of y = shape_of x \<and> numeric_view sf y = numeric_view sf x \<and>
     py_float sf y = py_float sf x \<and> is_int_float_str y = is_int_float_str x \<and>
     float_if_str sf y = Inr y"
  by (cases x) (auto simp: bind_err_Inr_iff split: if_splits option.splits)

lemma in_envelope_iff:
  "in_envelope sf xs \<longleftrightarrow>
      (2 \<le> length xs \<and> (\<exists>a b. py_float sf (xs ! 0) = Inr (Fin a) \<and> py_float sf (xs ! 1) = Inr (Fin b) \<and>
         -11.5 \<le> a \<and> a \<le> 6.5 \<and> 94.0 \<le> b \<and> b \<le> 141.5))"
  by (cases "py_float sf (xs ! 0)"; cases "py_float sf (xs ! 1)")
     (auto simp: in_envelope_def split: pyfloat.splits)

text \<open>The two branches of the candidate point.\<close>

lemma swap_point_fires:
  assumes "seq_items obj = Some xs" "in_envelope sf xs"
  shows "swap_point sf obj xs =
     bind_err (map_err (py_float sf) xs) (\<lambda>fs.
       Inr (PList (PFloat (fs ! 1) # PFloat (fs ! 0) # map PFloat (drop 2 fs))))"
proof -
  from assms(2) obtain x0 x1 rest where xs: "xs = x0 # x1 # rest"
    by (cases xs; cases "tl xs") (auto simp: in_envelope_iff)
  from assms(2) obtain a b where ab: "py_float sf x0 = Inr a" "py_float sf x1 = Inr b"
    unfolding xs in_envelope_iff by auto
  show ?thesis
    unfolding swap_point_def looks_like_latlon_seq [OF assms(1)]
    using assms(2) ab
    by (cases "map_err (py_float sf) rest"; cases rest) (auto simp: xs)
qed

lemma swap_point_quiet:
  assumes "seq_items obj = Some xs" "\<not> in_envelope sf xs"
  shows "swap_point sf obj xs = bind_err (map_err (float_if_str sf) xs) (\<lambda>ys. Inr (PList ys))"
  unfolding swap_point_def looks_like_latlon_seq [OF assms(1)] using assms(2) by simp

lemma map_err_py_float:
  "map_err (py_float sf) xs = Inr fs \<Longrightarrow>
     length fs = length xs \<and> map (numeric_view sf) xs = map PFloat fs \<and>
     map shape_of xs = map (\<lambda>f. Scalar) fs \<and> (\<forall>i < length xs. py_float sf (xs ! i) = Inr (fs ! i))"
  unfolding map_err_Inr_iff
  by (induction xs fs rule: list_all2_induct) (auto simp: py_float_scalar nth_Cons split: nat.splits)

lemma map_err_float_if_str:
  "map_err (float_if_str sf) xs = Inr ys \<Longrightarrow>
     length ys = length xs \<and> map shape_of ys = map shape_of xs \<and>
     map (numeric_view sf) ys = map (numeric_view sf) xs \<and>
     map (py_float sf) ys = map (py_float sf) xs \<and>
     map is_int_float_str ys = map is_int_float_str xs \<and>
     map_err (float_if_str sf) ys = Inr ys"
  unfolding map_err_Inr_iff
  by (induction xs ys rule: list_all2_induct) (auto simp: float_if_str_props)

lemma map_err_float_if_str_floats:
  "map_err (float_if_str sf) (map PFloat fs) = Inr (map PFloat fs)"
  by (induction fs) simp_all

text \<open>What a candidate point returns, in each branch.\<close>

lemma swap_point_result:
  assumes "seq_items obj = Some xs" "swap_point sf obj xs = Inr y"
  shows "(in_envelope sf xs \<and> (\<exists>fs. map_err (py_float sf) xs = Inr fs \<and>
            y = PList (map PFloat (fs ! 1 # fs ! 0 # drop 2 fs)))) \<or>
         (\<not> in_envelope sf xs \<and> (\<exists>ys. map_err (float_if_str sf) xs = Inr ys \<and> y = PList ys))"
proof (cases "in_envelope sf xs")
  case True
  with assms show ?thesis
    by (auto simp: swap_point_fires bind_err_Inr_iff)
next
  case False
  with assms show ?thesis
    by (auto simp: swap_point_quiet bind_err_Inr_iff)
qed

lemma swap_result_kind:
  assumes "swap_xy_in_coords sf x = Inr y"
  shows "case x of PList xs \<Rightarrow> (\<exists>ys. y = PList ys) | PTuple xs \<Rightarrow> (\<exists>ys. y = PList ys)
         | PDict kvs \<Rightarrow> (\<exists>kvs'. y = PDict kvs') | _ \<Rightarrow> y = x"
proof (cases x)
  case (PList xs)
  then show ?thesis using assms swap_point_result [of x xs sf y]
    by (auto simp: bind_err_Inr_iff split: if_splits)
next
  case (PTuple xs)
  then show ?thesis using assms swap_point_result [of x xs sf y]
    by (auto simp: bind_err_Inr_iff split: if_splits)
next
  case (PDict kvs)
  then show ?thesis using assms by (auto simp: bind_err_Inr_iff)
qed (use assms in auto)

lemma swap_is_int_float_str:
  "swap_xy_in_coords sf x = Inr y \<Longrightarrow> is_int_float_str y = is_int_float_str x"
  using swap_result_kind [of sf x y] by (cases x) auto

lemma swap_each_candidate:
  assumes "swap_each sf xs = Inr ys"
  shows "length ys = length xs \<and>
         list_all is_int_float_str (take 2 ys) = list_all is_int_float_str (take 2 xs)"
proof -
  from assms have "list_all2 (\<lambda>x y. swap_xy_in_coords sf x = Inr y) xs ys"
    by (simp add: swap_each_map_err map_err_Inr_iff)
  then have "list_all2 (\<lambda>x y. is_int_float_str y = is_int_float_str x) xs ys"
    by (rule list_all2_mono) (simp add: swap_is_int_float_str)
  then have "length ys = length xs \<and> map is_int_float_str ys = map is_int_float_str xs"
    by (induction xs ys rule: list_all2_induct) auto
  then have eq: "length ys = length xs"
      "map is_int_float_str (take 2 ys) = map is_int_float_str (take 2 xs)"
    by (simp_all add: take_map [symmetric])
  have aux: "list_all is_int_float_str zs = list_all (\<lambda>b. b) (map is_int_float_str zs)" for zs
    by (simp add: list_all_iff)
  show ?thesis
    unfolding aux [of "take 2 ys"] aux [of "take 2 xs"] eq by simp
qed

lemma swap_point_shape:
  assumes "seq_items obj = Some xs" "swap_point sf obj xs = Inr y" "2 \<le> length xs"
  shows "shape_of y = Sequence (shapes_of xs)"
proof -
  from swap_point_result [OF assms(1,2)] show ?thesis
  proof (elim disjE conjE exE)
    fix fs assume fs: "map_err (py_float sf) xs = Inr fs"
      and y: "y = PList (map PFloat (fs ! 1 # fs ! 0 # drop 2 fs))"
    from map_err_py_float [OF fs] have len: "length fs = length xs"
      and sh: "map shape_of xs = map (\<lambda>f. Scalar) fs" by simp_all
    from len assms(3) obtain f0 f1 rest where "fs = f0 # f1 # rest"
      by (cases fs; cases "tl fs") auto
    then show ?thesis by (simp add: y shapes_of_map sh comp_def)
  next
    fix ys assume "map_err (float_if_str sf) xs = Inr ys" "y = PList ys"
    then show ?thesis using map_err_float_if_str [of sf xs ys] by (simp add: shapes_of_map)
  qed
qed

lemma swap_shape:
  "\<forall>y. swap_xy_in_coords sf x = Inr y \<longrightarrow> shape_of y = shape_of x"
  "\<forall>ys. swap_each sf xs = Inr ys \<longrightarrow> shapes_of ys = shapes_of xs"
  "\<forall>kvs'. swap_items sf kvs = Inr kvs' \<longrightarrow> shape_items kvs' = shape_items kvs"
proof (induction sf x and sf xs and sf kvs rule: swap_xy_in_coords_swap_each_swap_items.induct)
  case (1 sf xs)
  then show ?case
    using swap_point_shape [of "PList xs" xs sf] by (auto simp: bind_err_Inr_iff)
next
  case (2 sf xs)
  then show ?case
    using swap_point_shape [of "PTuple xs" xs sf] by (auto simp: bind_err_Inr_iff)
next
  case (12 sf k v kvs)
  then show ?case
    by (auto simp: bind_err_Inr_iff split: if_splits)
qed (auto simp: bind_err_Inr_iff)

subsection \<open>The normalizer returns on well-formed input\<close>

lemma position_converts:
  "list_all is_number xs \<Longrightarrow>
     (\<exists>fs. map_err (py_float sf) xs = Inr fs) \<and> map_err (float_if_str sf) xs = Inr xs \<and>
     list_all is_int_float_str xs"
proof (induction xs)
  case Nil
  show ?case by simp
next
  case (Cons x xs)
  then show ?case by (cases x) auto
qed

lemma swap_point_position:
  assumes "seq_items obj = Some xs" "list_all is_number xs"
  shows "\<exists>y. swap_point sf obj xs = Inr y"
proof (cases "in_envelope sf xs")
  case True
  from position_converts [OF assms(2)] obtain fs where "map_err (py_float sf) xs = Inr fs" by blast
  then show ?thesis by (simp add: swap_point_fires [OF assms(1) True])
next
  case False
  from position_converts [OF assms(2)] have "map_err (float_if_str sf) xs = Inr xs" by blast
  then show ?thesis by (simp add: swap_point_quiet [OF assms(1) False])
qed

lemma geojson_elements_not_candidate:
  "geojson_elements xs \<Longrightarrow> 2 \<le> length xs \<Longrightarrow> \<not> list_all is_int_float_str (take 2 xs)"
  by (cases xs) (auto split: pyval.splits)

lemma swap_total:
  "geojson_structure x \<longrightarrow> (\<exists>y. swap_xy_in_coords sf x = Inr y)"
  "geojson_elements xs \<longrightarrow> (\<exists>ys. swap_each sf xs = Inr ys)"
  "geojson_items kvs \<longrightarrow> (\<exists>kvs'. swap_items sf kvs = Inr kvs')"
proof (induction sf x and sf xs and sf kvs rule: swap_xy_in_coords_swap_each_swap_items.induct)
  case (1 sf xs)
  show ?case
  proof
    assume wf: "geojson_structure (PList xs)"
    show "\<exists>y. swap_xy_in_coords sf (PList xs) = Inr y"
    proof (cases "2 \<le> length xs \<and> list_all is_number xs")
      case True
      then have "2 \<le> length xs \<and> list_all is_int_float_str (take 2 xs)"
        using position_converts [of xs sf] by (auto simp: list_all_iff dest: in_set_takeD)
      then show ?thesis
        using swap_point_position [of "PList xs" xs sf] True by simp
    next
      case False
      with wf have el: "geojson_elements xs" by auto
      then have nc: "\<not> (2 \<le> length xs \<and> list_all is_int_float_str (take 2 xs))"
        using geojson_elements_not_candidate by blast
      from "1.IH" [OF nc] el obtain ys where "swap_each sf xs = Inr ys" by blast
      with nc show ?thesis by auto
    qed
  qed
next
  case (10 sf x xs)
  then show ?case by (cases x) auto
next
  case (12 sf k v kvs)
  then show ?case by auto
qed auto

subsection \<open>Agreement with the specification's algorithm\<close>

lemma swap_point_numeric_view:
  assumes "seq_items obj = Some xs" "swap_point sf obj xs = Inr y" "2 \<le> length xs"
  shows "numeric_view sf y =
         numeric_view sf (if in_envelope sf xs then PList (xs ! 1 # xs ! 0 # drop 2 xs) else PList xs)"
proof -
  from swap_point_result [OF assms(1,2)] show ?thesis
  proof (elim disjE conjE exE)
    fix fs assume env: "in_envelope sf xs" and fs: "map_err (py_float sf) xs = Inr fs"
      and y: "y = PList (map PFloat (fs ! 1 # fs ! 0 # drop 2 fs))"
    from map_err_py_float [OF fs] have len: "length fs = length xs"
      and nv: "map (numeric_view sf) xs = map PFloat fs" by simp_all
    from len assms(3) obtain f0 f1 frest where f: "fs = f0 # f1 # frest"
      by (cases fs; cases "tl fs") auto
    from len f obtain x0 x1 rest where x: "xs = x0 # x1 # rest"
      by (cases xs; cases "tl xs") auto
    show ?thesis using nv env by (simp add: y f x numeric_views_map comp_def)
  next
    fix ys assume "\<not> in_envelope sf xs" "map_err (float_if_str sf) xs = Inr ys" "y = PList ys"
    then show ?thesis using map_err_float_if_str [of sf xs ys] by (simp add: numeric_views_map)
  qed
qed

lemma swap_numeric_view:
  "\<forall>y. swap_xy_in_coords sf x = Inr y \<longrightarrow>
       numeric_view sf y = numeric_view sf (spec_normalizeCoordinates sf x)"
  "\<forall>ys. swap_each sf xs = Inr ys \<longrightarrow>
       numeric_views sf ys = numeric_views sf (spec_normalize_each sf xs)"
  "\<forall>kvs'. swap_items sf kvs = Inr kvs' \<longrightarrow>
       numeric_view_items sf kvs' = numeric_view_items sf (spec_normalize_items sf kvs)"
proof (induction sf x and sf xs and sf kvs rule: swap_xy_in_coords_swap_each_swap_items.induct)
  case (1 sf xs)
  then show ?case
    using swap_point_numeric_view [of "PList xs" xs sf] by (auto simp: bind_err_Inr_iff)
next
  case (2 sf xs)
  then show ?case
    using swap_point_numeric_view [of "PTuple xs" xs sf] by (auto simp: bind_err_Inr_iff)
next
  case (12 sf k v kvs)
  then show ?case
    by (auto simp: bind_err_Inr_iff split: if_splits)
qed (auto simp: bind_err_Inr_iff)

subsection \<open>A second pass changes nothing\<close>

lemma in_envelope_cong:
  "length ys = length xs \<Longrightarrow> map (py_float sf) ys = map (py_float sf) xs \<Longrightarrow>
   in_envelope sf ys = in_envelope sf xs"
proof -
  assume len: "length ys = length xs" and m: "map (py_float sf) ys = map (py_float sf) xs"
  have nth: "py_float sf (ys ! i) = py_float sf (xs ! i)" if "i < length xs" for i
    using that len m by (metis nth_map)
  have "py_float sf (ys ! 0) = py_float sf (xs ! 0) \<and> py_float sf (ys ! 1) = py_float sf (xs ! 1)"
    if "2 \<le> length xs"
  proof -
    from that have "0 < length xs" "1 < length xs" by linarith+
    then show ?thesis by (intro conjI nth)
  qed
  then show ?thesis
    by (cases "2 \<le> length xs") (simp_all add: in_envelope_def len)
qed

lemma swapped_not_in_envelope:
  assumes "in_envelope sf xs" "map_err (py_float sf) xs = Inr fs"
  shows "\<not> in_envelope sf (map PFloat (fs ! 1 # fs ! 0 # drop 2 fs))"
proof -
  from assms(1) obtain a b where ab: "py_float sf (xs ! 0) = Inr (Fin a)"
      "py_float sf (xs ! 1) = Inr (Fin b)" "94 \<le> b" "2 \<le> length xs"
    unfolding in_envelope_iff by auto
  from map_err_py_float [OF assms(2)] ab have "fs ! 1 = Fin b" by auto
  with ab(3) show ?thesis by (simp add: in_envelope_iff)
qed

lemma swap_point_idem:
  assumes "seq_items obj = Some xs" "2 \<le> length xs" "list_all is_int_float_str (take 2 xs)"
    and "swap_point sf obj xs = Inr y"
  shows "swap_xy_in_coords sf y = Inr y"
proof -
  from swap_point_result [OF assms(1,4)] show ?thesis
  proof (elim disjE conjE exE)
    fix fs assume env: "in_envelope sf xs" and fs: "map_err (py_float sf) xs = Inr fs"
      and y: "y = PList (map PFloat (fs ! 1 # fs ! 0 # drop 2 fs))"
    let ?zs = "map PFloat (fs ! 1 # fs ! 0 # drop 2 fs)"
    have cand: "2 \<le> length ?zs \<and> list_all is_int_float_str (take 2 ?zs)" by simp
    have "swap_point sf (PList ?zs) ?zs = Inr (PList ?zs)"
      using swap_point_quiet [of "PList ?zs" ?zs sf] swapped_not_in_envelope [OF env fs]
        map_err_float_if_str_floats [of sf "fs ! 1 # fs ! 0 # drop 2 fs"]
      by simp
    with cand show ?thesis unfolding y by (simp del: list.map)
  next
    fix ys assume quiet: "\<not> in_envelope sf xs" and ys: "map_err (float_if_str sf) xs = Inr ys"
      and y: "y = PList ys"
    from map_err_float_if_str [OF ys] have len: "length ys = length xs"
      and pf: "map (py_float sf) ys = map (py_float sf) xs"
      and ifs: "map is_int_float_str ys = map is_int_float_str xs"
      and again: "map_err (float_if_str sf) ys = Inr ys" by simp_all
    have aux: "list_all is_int_float_str zs = list_all (\<lambda>b. b) (map is_int_float_str zs)" for zs
      by (simp add: list_all_iff)
    have "map is_int_float_str (take 2 ys) = map is_int_float_str (take 2 xs)"
      using ifs by (simp add: take_map [symmetric])
    then have cand: "2 \<le> length ys \<and> list_all is_int_float_str (take 2 ys)"
      using assms(2,3) len unfolding aux [of "take 2 ys"] aux [of "take 2 xs"] by simp
    have "\<not> in_envelope sf ys" using quiet in_envelope_cong [OF len pf] by simp
    then have "swap_point sf (PList ys) ys = Inr (PList ys)"
      using swap_point_quiet [of "PList ys" ys sf] again by simp
    with cand show ?thesis unfolding y by simp
  qed
qed

lemma swap_idem:
  "\<forall>y. swap_xy_in_coords sf x = Inr y \<longrightarrow> swap_xy_in_coords sf y = Inr y"
  "\<forall>ys. swap_each sf xs = Inr ys \<longrightarrow> swap_each sf ys = Inr ys"
  "\<forall>kvs'. swap_items sf kvs = Inr kvs' \<longrightarrow> swap_items sf kvs' = Inr kvs'"
proof (induction sf x and sf xs and sf kvs rule: swap_xy_in_coords_swap_each_swap_items.induct)
  case (1 sf xs)
  show ?case
  proof (cases "2 \<le> length xs \<and> list_all is_int_float_str (take 2 xs)")
    case True
    then show ?thesis using swap_point_idem [of "PList xs" xs sf] by simp
  next
    case False
    show ?thesis
    proof (intro allI impI)
      fix y assume "swap_xy_in_coords sf (PList xs) = Inr y"
      with False obtain ys where ys: "swap_each sf xs = Inr ys" and y: "y = PList ys"
        by (auto simp: bind_err_Inr_iff)
      from "1.IH" [OF False] ys have again: "swap_each sf ys = Inr ys" by blast
      from swap_each_candidate [OF ys] False
      have "\<not> (2 \<le> length ys \<and> list_all is_int_float_str (take 2 ys))" by simp
      with again show "swap_xy_in_coords sf y = Inr y" unfolding y by auto
    qed
  qed
next
  case (2 sf xs)
  show ?case
  proof (cases "2 \<le> length xs \<and> list_all is_int_float_str (take 2 xs)")
    case True
    then show ?thesis using swap_point_idem [of "PTuple xs" xs sf] by simp
  next
    case False
    show ?thesis
    proof (intro allI impI)
      fix y assume "swap_xy_in_coords sf (PTuple xs) = Inr y"
      with False obtain ys where ys: "swap_each sf xs = Inr ys" and y: "y = PList ys"
        by (auto simp: bind_err_Inr_iff)
      from "2.IH" [OF False] ys have again: "swap_each sf ys = Inr ys" by blast
      from swap_each_candidate [OF ys] False
      have "\<not> (2 \<le> length ys \<and> list_all is_int_float_str (take 2 ys))" by simp
      with again show "swap_xy_in_coords sf y = Inr y" unfolding y by auto
    qed
  qed
next
  case (12 sf k v kvs)
  then show ?case
    by (auto simp: bind_err_Inr_iff split: if_splits)
qed (auto simp: bind_err_Inr_iff)

subsection \<open>Dicts\<close>

lemma swap_items_Inr_iff:
  "swap_items sf kvs = Inr kvs' \<longleftrightarrow>
     list_all2 (\<lambda>kv kv'. fst kv' = fst kv \<and>
        (if fst kv \<noteq> ''type'' then swap_xy_in_coords sf (snd kv) = Inr (snd kv')
         else snd kv' = snd kv)) kvs kvs'"
proof (induction kvs arbitrary: kvs')
  case Nil
  show ?case by auto
next
  case (Cons kv kvs)
  obtain k v where kv: "kv = (k, v)" by (cases kv)
  show ?case
    by (cases kvs') (auto simp: kv bind_err_Inr_iff Cons.IH)
qed

section \<open>The claims about the axis normalizer\<close>

lemma map_err_float_if_str_numeric:
  "list_all (numeric_string sf) xs \<Longrightarrow>
   map_err (float_if_str sf) xs = Inr (map (string_as_number sf) xs)"
proof (induction xs)
  case Nil
  show ?case by simp
next
  case (Cons x xs)
  then show ?case by (cases x) auto
qed

lemma swap_candidate:
  assumes "seq_items node = Some xs" "2 \<le> length xs" "list_all is_int_float_str (take 2 xs)"
  shows "swap_xy_in_coords sf node = swap_point sf node xs"
  using assms by (cases node) auto

text \<open>
  Claim C2, as amended. Let the node be a list or tuple of at least two elements whose
  first two elements are ints, floats or strings. When \<^verbatim>\<open>looks_like_latlon\<close> is true and
  \<^verbatim>\<open>float()\<close> converts every trailing component, the result is the list
  \<open>[float(node[1]), float(node[0]), float(r) for r in rest]\<close>. When \<^verbatim>\<open>looks_like_latlon\<close> is
  false and every string among the elements spells a number, the result is the list of
  the elements in their order, each string replaced by its number. When the heuristic
  fires and \<^verbatim>\<open>float()\<close> rejects a trailing component, the call raises.
\<close>

theorem swap_coordinate_pair:
  assumes "seq_items node = Some xs" "2 \<le> length xs" "list_all is_int_float_str (take 2 xs)"
  shows "(looks_like_latlon sf node = Inr True \<and> map_err (py_float sf) (drop 2 xs) = Inr rest \<longrightarrow>
            (\<exists>a b. py_float sf (xs ! 0) = Inr a \<and> py_float sf (xs ! 1) = Inr b \<and>
               swap_xy_in_coords sf node = Inr (PList (PFloat b # PFloat a # map PFloat rest)))) \<and>
         (looks_like_latlon sf node = Inr False \<and> list_all (numeric_string sf) xs \<longrightarrow>
            swap_xy_in_coords sf node = Inr (PList (map (string_as_number sf) xs))) \<and>
         (looks_like_latlon sf node = Inr True \<and> map_err (py_float sf) (drop 2 xs) = Inl e \<longrightarrow>
            swap_xy_in_coords sf node = Inl e)"
proof -
  note sw = swap_candidate [OF assms]
  have looks: "looks_like_latlon sf node = Inr (in_envelope sf xs)"
    using assms(1) by (rule looks_like_latlon_seq)
  have fires: "\<exists>a b. py_float sf (xs ! 0) = Inr a \<and> py_float sf (xs ! 1) = Inr b \<and>
      swap_point sf node xs =
        bind_err (map_err (py_float sf) (drop 2 xs)) (\<lambda>rest.
          Inr (PList (PFloat b # PFloat a # map PFloat rest)))"
    if env: "in_envelope sf xs"
  proof -
    from env obtain a b where ab: "py_float sf (xs ! 0) = Inr (Fin a)" "py_float sf (xs ! 1) = Inr (Fin b)"
      unfolding in_envelope_iff by auto
    have "(if 2 < length xs then map_err (py_float sf) (drop 2 xs) else Inr []) =
          map_err (py_float sf) (drop 2 xs)"
      using assms(2) by auto
    then show ?thesis
      unfolding swap_point_def looks using env ab by simp
  qed
  have c1: "looks_like_latlon sf node = Inr True \<and> map_err (py_float sf) (drop 2 xs) = Inr rest \<longrightarrow>
            (\<exists>a b. py_float sf (xs ! 0) = Inr a \<and> py_float sf (xs ! 1) = Inr b \<and>
               swap_xy_in_coords sf node = Inr (PList (PFloat b # PFloat a # map PFloat rest)))"
    using fires unfolding sw looks by auto
  have c2: "looks_like_latlon sf node = Inr False \<and> list_all (numeric_string sf) xs \<longrightarrow>
            swap_xy_in_coords sf node = Inr (PList (map (string_as_number sf) xs))"
    unfolding sw looks
    by (auto simp: swap_point_quiet [OF assms(1)] map_err_float_if_str_numeric)
  have c3: "looks_like_latlon sf node = Inr True \<and> map_err (py_float sf) (drop 2 xs) = Inl e \<longrightarrow>
            swap_xy_in_coords sf node = Inl e"
    using fires unfolding sw looks by auto
  from c1 c2 c3 show ?thesis by blast
qed


text \<open>
  The theorem at \<open>[-6.2, 106.8]\<close> (Jakarta as lat, lon: swapped), at \<open>[106.8, -6.2]\<close>
  (unchanged) and at \<open>[5, 100, "7.5"]\<close> (swapped, the height \<open>"7.5"\<close> kept as \<open>7.5\<close>).
\<close>

theorem swap_coordinate_pair_witness:
  "swap_xy_in_coords (\<lambda>s. None) (PList [PFloat (Fin (-6.2)), PFloat (Fin 106.8)])
     = Inr (PList [PFloat (Fin 106.8), PFloat (Fin (-6.2))]) \<and>
   swap_xy_in_coords (\<lambda>s. None) (PList [PFloat (Fin 106.8), PFloat (Fin (-6.2))])
     = Inr (PList [PFloat (Fin 106.8), PFloat (Fin (-6.2))]) \<and>
   swap_xy_in_coords (map_of [(''7.5'', Fin 7.5)]) (PList [PInt 5, PInt 100, PStr ''7.5''])
     = Inr (PList [PFloat (Fin 100), PFloat (Fin 5), PFloat (Fin 7.5)])"
proof -
  let ?none = "\<lambda>s::string. None :: pyfloat option"
  let ?sf = "map_of [(''7.5'', Fin 7.5)]"
  have l1: "looks_like_latlon ?none (PList [PFloat (Fin (-6.2)), PFloat (Fin 106.8)]) = Inr True"
    by (simp add: looks_like_latlon_seq in_envelope_def)
  have l2: "looks_like_latlon ?none (PList [PFloat (Fin 106.8), PFloat (Fin (-6.2))]) = Inr False"
    by (simp add: looks_like_latlon_seq in_envelope_def)
  have l3: "looks_like_latlon ?sf (PList [PInt 5, PInt 100, PStr ''7.5'']) = Inr True"
    by (simp add: looks_like_latlon_seq in_envelope_def float_overflow_at_def)
  have r1: "swap_xy_in_coords ?none (PList [PFloat (Fin (-6.2)), PFloat (Fin 106.8)])
     = Inr (PList [PFloat (Fin 106.8), PFloat (Fin (-6.2))])"
    using l1 swap_coordinate_pair [of "PList [PFloat (Fin (-6.2)), PFloat (Fin 106.8)]"
        "[PFloat (Fin (-6.2)), PFloat (Fin 106.8)]" ?none "[]"]
    by simp
  have r2: "swap_xy_in_coords ?none (PList [PFloat (Fin 106.8), PFloat (Fin (-6.2))])
     = Inr (PList [PFloat (Fin 106.8), PFloat (Fin (-6.2))])"
    using l2 swap_coordinate_pair [of "PList [PFloat (Fin 106.8), PFloat (Fin (-6.2))]"
        "[PFloat (Fin 106.8), PFloat (Fin (-6.2))]" ?none]
    by simp
  have r3: "swap_xy_in_coords ?sf (PList [PInt 5, PInt 100, PStr ''7.5''])
     = Inr (PList [PFloat (Fin 100), PFloat (Fin 5), PFloat (Fin 7.5)])"
    using l3 swap_coordinate_pair [of "PList [PInt 5, PInt 100, PStr ''7.5'']"
        "[PInt 5, PInt 100, PStr ''7.5'']" ?sf "[Fin 7.5]"]
    by (simp add: float_overflow_at_def)
  from r1 r2 r3 show ?thesis by simp
qed

text \<open>
  Claim C2 as stated fails: the first two elements of \<open>[-6.2, 106.8, None]\<close> are numbers
  and the heuristic fires, yet the call raises TypeError on the trailing \<open>None\<close> and
  returns no list; \<open>[200, 300, "abc"]\<close> is outside the envelope, and the call raises
  ValueError on the trailing string.
\<close>

theorem swap_coordinate_pair_counterexample:
  "list_all is_int_float_str (take 2 [PFloat (Fin (-6.2)), PFloat (Fin 106.8), PNone]) \<and>
   looks_like_latlon (\<lambda>s. None) (PList [PFloat (Fin (-6.2)), PFloat (Fin 106.8), PNone]) = Inr True \<and>
   swap_xy_in_coords (\<lambda>s. None) (PList [PFloat (Fin (-6.2)), PFloat (Fin 106.8), PNone])
     = Inl TypeError \<and>
   list_all is_int_float_str (take 2 [PInt 200, PInt 300, PStr ''abc'']) \<and>
   looks_like_latlon (\<lambda>s. None) (PList [PInt 200, PInt 300, PStr ''abc'']) = Inr False \<and>
   swap_xy_in_coords (\<lambda>s. None) (PList [PInt 200, PInt 300, PStr ''abc'']) = Inl ValueError"
  by (simp add: swap_point_def looks_like_latlon_seq in_envelope_def float_overflow_at_def)

text \<open>
  Claim C3. On well-formed GeoJSON coordinate data the normalizer returns. Whenever it
  returns, the result has the shape of its argument: the same nesting, the same number
  of elements at every level, the same keys in every dict. Up to numeric equality the
  result is what the specification's algorithm gives, which alters a value only by
  exchanging the first two components of a coordinate on which the heuristic fires. A
  dict is returned as a dict with the same keys in the same order, the value under
  \<^verbatim>\<open>type\<close> as it is and every other value normalized.
\<close>

theorem swap_preserves_shape:
  "(geojson_structure x \<longrightarrow> (\<exists>y. swap_xy_in_coords sf x = Inr y)) \<and>
   (\<forall>y. swap_xy_in_coords sf x = Inr y \<longrightarrow>
      shape_of y = shape_of x \<and> depth (shape_of y) = depth (shape_of x) \<and>
      numeric_view sf y = numeric_view sf (spec_normalizeCoordinates sf x)) \<and>
   (\<forall>kvs y. x = PDict kvs \<and> swap_xy_in_coords sf x = Inr y \<longrightarrow>
      (\<exists>kvs'. y = PDict kvs' \<and>
         list_all2 (\<lambda>kv kv'. fst kv' = fst kv \<and>
           (if fst kv \<noteq> ''type'' then swap_xy_in_coords sf (snd kv) = Inr (snd kv')
            else snd kv' = snd kv)) kvs kvs'))"
proof (intro conjI)
  show "geojson_structure x \<longrightarrow> (\<exists>y. swap_xy_in_coords sf x = Inr y)"
    by (rule swap_total)
  show "\<forall>y. swap_xy_in_coords sf x = Inr y \<longrightarrow>
      shape_of y = shape_of x \<and> depth (shape_of y) = depth (shape_of x) \<and>
      numeric_view sf y = numeric_view sf (spec_normalizeCoordinates sf x)"
    using swap_shape(1) [of sf x] swap_numeric_view(1) [of sf x] by simp
  show "\<forall>kvs y. x = PDict kvs \<and> swap_xy_in_coords sf x = Inr y \<longrightarrow>
      (\<exists>kvs'. y = PDict kvs' \<and>
         list_all2 (\<lambda>kv kv'. fst kv' = fst kv \<and>
           (if fst kv \<noteq> ''type'' then swap_xy_in_coords sf (snd kv) = Inr (snd kv')
            else snd kv' = snd kv)) kvs kvs')"
  proof (intro allI impI, elim conjE)
    fix kvs y assume x: "x = PDict kvs" and "swap_xy_in_coords sf x = Inr y"
    then obtain kvs' where "swap_items sf kvs = Inr kvs'" "y = PDict kvs'"
      by (auto simp: bind_err_Inr_iff)
    then show "\<exists>kvs'. y = PDict kvs' \<and>
         list_all2 (\<lambda>kv kv'. fst kv' = fst kv \<and>
           (if fst kv \<noteq> ''type'' then swap_xy_in_coords sf (snd kv) = Inr (snd kv')
            else snd kv' = snd kv)) kvs kvs'"
      using swap_items_Inr_iff [THEN iffD1] by blast
  qed
qed

text \<open>
  The theorem at a polygon geometry with one ring of three positions, the first of
  them in lat, lon order and the last with a height.
\<close>

theorem swap_preserves_shape_witness:
  "geojson_structure
     (PDict [(''type'', PStr ''Polygon''),
             (''coordinates'', PList [PList [PList [PFloat (Fin (-6.2)), PFloat (Fin 106.8)],
                PList [PFloat (Fin 106.9), PFloat (Fin (-6.3))],
                PList [PInt 107, PInt (-6), PInt 12]]])]) \<and>
   (\<exists>y. swap_xy_in_coords (\<lambda>s. None)
     (PDict [(''type'', PStr ''Polygon''),
             (''coordinates'', PList [PList [PList [PFloat (Fin (-6.2)), PFloat (Fin 106.8)],
                PList [PFloat (Fin 106.9), PFloat (Fin (-6.3))],
                PList [PInt 107, PInt (-6), PInt 12]]])]) = Inr y \<and>
      shape_of y = Mapping [(''type'', Scalar),
        (''coordinates'', Sequence [Sequence [Sequence [Scalar, Scalar], Sequence [Scalar, Scalar],
           Sequence [Scalar, Scalar, Scalar]]])] \<and>
      numeric_view (\<lambda>s. None) y =
        PDict [(''type'', PStr ''Polygon''),
             (''coordinates'', PList [PList [PList [PFloat (Fin 106.8), PFloat (Fin (-6.2))],
                PList [PFloat (Fin 106.9), PFloat (Fin (-6.3))],
                PList [PFloat (Fin 107), PFloat (Fin (-6)), PFloat (Fin 12)]]])])"
proof -
  let ?sf = "\<lambda>s::string. None :: pyfloat option"
  let ?x = "PDict [(''type'', PStr ''Polygon''),
             (''coordinates'', PList [PList [PList [PFloat (Fin (-6.2)), PFloat (Fin 106.8)],
                PList [PFloat (Fin 106.9), PFloat (Fin (-6.3))],
                PList [PInt 107, PInt (-6), PInt 12]]])]"
  have wf: "geojson_structure ?x"
    by (simp add: float_overflow_at_def)
  from wf swap_preserves_shape [of ?x ?sf] obtain y where y: "swap_xy_in_coords ?sf ?x = Inr y"
    by blast
  with swap_preserves_shape [of ?x ?sf]
  have "shape_of y = shape_of ?x"
    "numeric_view ?sf y = numeric_view ?sf (spec_normalizeCoordinates ?sf ?x)"
    by blast+
  then have "shape_of y = Mapping [(''type'', Scalar),
        (''coordinates'', Sequence [Sequence [Sequence [Scalar, Scalar], Sequence [Scalar, Scalar],
           Sequence [Scalar, Scalar, Scalar]]])]"
    "numeric_view ?sf y =
        PDict [(''type'', PStr ''Polygon''),
             (''coordinates'', PList [PList [PList [PFloat (Fin 106.8), PFloat (Fin (-6.2))],
                PList [PFloat (Fin 106.9), PFloat (Fin (-6.3))],
                PList [PFloat (Fin 107), PFloat (Fin (-6)), PFloat (Fin 12)]]])]"
    by (simp_all add: in_envelope_def float_overflow_at_def)
  with wf y show ?thesis by blast
qed

text \<open>
  Claim C4. A second pass of the normalizer returns what the first pass returned, and
  raises what the first raised; on well-formed coordinate data both passes return. This
  holds for every input: a pair that was exchanged has a longitude of 94 or more in
  front, outside the latitude range, so the heuristic cannot fire on it again.
\<close>

theorem swap_idempotent:
  "bind_err (swap_xy_in_coords sf x) (swap_xy_in_coords sf) = swap_xy_in_coords sf x \<and>
   (geojson_structure x \<longrightarrow>
      (\<exists>y. swap_xy_in_coords sf x = Inr y \<and> swap_xy_in_coords sf y = Inr y))"
proof
  show "bind_err (swap_xy_in_coords sf x) (swap_xy_in_coords sf) = swap_xy_in_coords sf x"
    using swap_idem(1) [of sf x] by (cases "swap_xy_in_coords sf x") simp_all
  show "geojson_structure x \<longrightarrow>
      (\<exists>y. swap_xy_in_coords sf x = Inr y \<and> swap_xy_in_coords sf y = Inr y)"
    using swap_total(1) [of x sf] swap_idem(1) [of sf x] by blast
qed

text \<open>
  The theorem at a ring of one position in lat, lon order and one in lon, lat order:
  the first pass exchanges the first position, the second pass changes nothing.
\<close>

theorem swap_idempotent_witness:
  "swap_xy_in_coords (\<lambda>s. None)
      (PList [PList [PFloat (Fin (-6.2)), PFloat (Fin 106.8)], PList [PFloat (Fin 106.9), PFloat (Fin (-6.3))]])
     = Inr (PList [PList [PFloat (Fin 106.8), PFloat (Fin (-6.2))], PList [PFloat (Fin 106.9), PFloat (Fin (-6.3))]]) \<and>
   swap_xy_in_coords (\<lambda>s. None)
      (PList [PList [PFloat (Fin 106.8), PFloat (Fin (-6.2))], PList [PFloat (Fin 106.9), PFloat (Fin (-6.3))]])
     = Inr (PList [PList [PFloat (Fin 106.8), PFloat (Fin (-6.2))], PList [PFloat (Fin 106.9), PFloat (Fin (-6.3))]])"
proof -
  let ?sf = "\<lambda>s::string. None :: pyfloat option"
  let ?x = "PList [PList [PFloat (Fin (-6.2)), PFloat (Fin 106.8)], PList [PFloat (Fin 106.9), PFloat (Fin (-6.3))]]"
  let ?y = "PList [PList [PFloat (Fin 106.8), PFloat (Fin (-6.2))], PList [PFloat (Fin 106.9), PFloat (Fin (-6.3))]]"
  have once: "swap_xy_in_coords ?sf ?x = Inr ?y"
    by (simp add: swap_point_def looks_like_latlon_seq in_envelope_def)
  have "bind_err (swap_xy_in_coords ?sf ?x) (swap_xy_in_coords ?sf) = swap_xy_in_coords ?sf ?x"
    using swap_idempotent [of ?sf ?x] by (rule conjunct1)
  then have "swap_xy_in_coords ?sf ?y = Inr ?y"
    unfolding once by simp
  with once show ?thesis by simp
qed

section \<open>Properties of feature collections\<close>

lemma update_absent: "map_of kvs k = None \<Longrightarrow> AList.update k v kvs = kvs @ [(k, v)]"
  by (induction kvs) (auto split: if_splits)

text \<open>
  Claim C5, as amended. \<^verbatim>\<open>swap_featurecollection\<close> returns its argument unchanged when
  the argument is no dict or is a dict whose \<^verbatim>\<open>type\<close> is not \<^verbatim>\<open>"FeatureCollection"\<close>. On a
  FeatureCollection dict without a \<^verbatim>\<open>features\<close> key it returns the dict with one more
  entry at the end, \<^verbatim>\<open>features\<close> with the empty list; the other entries are unchanged.
\<close>

theorem swap_featurecollection_passthrough:
  "((\<forall>kvs. fc = PDict kvs \<longrightarrow> map_of kvs ''type'' \<noteq> Some (PStr ''FeatureCollection'')) \<longrightarrow>
      swap_featurecollection sf fc = Inr fc) \<and>
   (\<forall>kvs. fc = PDict kvs \<and> map_of kvs ''type'' = Some (PStr ''FeatureCollection'') \<and>
        map_of kvs ''features'' = None \<longrightarrow>
      swap_featurecollection sf fc = Inr (PDict (kvs @ [(''features'', PList [])])))"
proof (cases fc)
  case (PDict kvs)
  show ?thesis
    unfolding PDict
    by (auto simp: update_absent split: option.splits)
qed simp_all

text \<open>
  The theorem at the integer \<open>5\<close>, at a dict of type \<^verbatim>\<open>Feature\<close> and at a FeatureCollection
  that has a name and no features.
\<close>

theorem swap_featurecollection_passthrough_witness:
  "swap_featurecollection (\<lambda>s. None) (PInt 5) = Inr (PInt 5) \<and>
   swap_featurecollection (\<lambda>s. None) (PDict [(''type'', PStr ''Feature'')])
     = Inr (PDict [(''type'', PStr ''Feature'')]) \<and>
   swap_featurecollection (\<lambda>s. None)
       (PDict [(''type'', PStr ''FeatureCollection''), (''name'', PStr ''ACEH'')])
     = Inr (PDict [(''type'', PStr ''FeatureCollection''), (''name'', PStr ''ACEH''),
                   (''features'', PList [])])"
proof -
  let ?sf = "\<lambda>s::string. None :: pyfloat option"
  have r1: "swap_featurecollection ?sf (PInt 5) = Inr (PInt 5)"
    using swap_featurecollection_passthrough [of "PInt 5" ?sf] by simp
  have r2: "swap_featurecollection ?sf (PDict [(''type'', PStr ''Feature'')])
     = Inr (PDict [(''type'', PStr ''Feature'')])"
    using swap_featurecollection_passthrough [of "PDict [(''type'', PStr ''Feature'')]" ?sf] by simp
  have r3: "swap_featurecollection ?sf
       (PDict [(''type'', PStr ''FeatureCollection''), (''name'', PStr ''ACEH'')])
     = Inr (PDict [(''type'', PStr ''FeatureCollection''), (''name'', PStr ''ACEH''),
                   (''features'', PList [])])"
    using swap_featurecollection_passthrough
      [of "PDict [(''type'', PStr ''FeatureCollection''), (''name'', PStr ''ACEH'')]" ?sf]
    by simp
  from r1 r2 r3 show ?thesis by simp
qed

text \<open>
  Claim C5 as stated fails: a FeatureCollection without a \<^verbatim>\<open>features\<close> key is not returned
  unchanged, it comes back with an empty \<^verbatim>\<open>features\<close> list added.
\<close>

theorem swap_featurecollection_counterexample:
  "swap_featurecollection (\<lambda>s. None) (PDict [(''type'', PStr ''FeatureCollection'')])
     = Inr (PDict [(''type'', PStr ''FeatureCollection''), (''features'', PList [])]) \<and>
   swap_featurecollection (\<lambda>s. None) (PDict [(''type'', PStr ''FeatureCollection'')])
     \<noteq> Inr (PDict [(''type'', PStr ''FeatureCollection'')])"
  by simp

section \<open>Properties of the geometry fetch\<close>

lemma try_except_Inr: "\<exists>r. try_except body h = Inr r"
  by (cases body) (simp_all add: try_except_def)

lemma try_except_Some_iff:
  "try_except body None = Inr (Some d) \<longleftrightarrow> body = Inr (Some d)"
  by (cases body) (auto simp: try_except_def)

lemma dict_get_Inr_iff:
  "dict_get obj k d = Inr v \<longleftrightarrow>
     (\<exists>kvs. obj = PDict kvs \<and> v = (case map_of kvs k of Some w \<Rightarrow> w | None \<Rightarrow> d))"
  by (cases obj) auto

text \<open>
  Claim C7. \<^verbatim>\<open>fetch_region_geometry\<close> always returns, for every endpoint, code and
  outcome of the request. It returns a geometry \<open>d\<close> exactly when the request gave a dict
  whose \<^verbatim>\<open>meta\<close> is a dict with \<^verbatim>\<open>code\<close> equal to 200 and whose \<^verbatim>\<open>data\<close> is a dict
  with a non-empty \<^verbatim>\<open>region\<close> that has \<^verbatim>\<open>features\<close>, and \<open>d\<close> is what
  \<^verbatim>\<open>swap_featurecollection\<close> returns on that region. In every other case (the request or
  the parsing raised, the code is not 200, the region is missing) it returns \<^verbatim>\<open>None\<close>.
\<close>

theorem fetch_region_geometry_total:
  "(\<exists>r. fetch_region_geometry http sf endpoint code = Inr r) \<and>
   (\<forall>e. http (API_BASE_URL @ ''/'' @ endpoint) code = Inl e \<longrightarrow>
      fetch_region_geometry http sf endpoint code = Inr None) \<and>
   (\<forall>d. fetch_region_geometry http sf endpoint code = Inr (Some d) \<longleftrightarrow>
      (\<exists>result meta c data region.
         http (API_BASE_URL @ ''/'' @ endpoint) code = Inr result \<and>
         dict_get result ''meta'' (PDict []) = Inr meta \<and>
         dict_get meta ''code'' PNone = Inr c \<and> py_eq_int c 200 \<and>
         dict_get result ''data'' (PDict []) = Inr data \<and>
         dict_get data ''region'' PNone = Inr region \<and>
         truthy region \<and> py_contains ''features'' region = Inr True \<and>
         swap_featurecollection sf region = Inr d))"
proof (intro conjI allI)
  show "\<exists>r. fetch_region_geometry http sf endpoint code = Inr r"
    unfolding fetch_region_geometry_def by (rule try_except_Inr)
  show "http (API_BASE_URL @ ''/'' @ endpoint) code = Inl e \<longrightarrow>
      fetch_region_geometry http sf endpoint code = Inr None" for e
    by (simp add: fetch_region_geometry_def try_except_def)
  show "fetch_region_geometry http sf endpoint code = Inr (Some d) \<longleftrightarrow>
      (\<exists>result meta c data region.
         http (API_BASE_URL @ ''/'' @ endpoint) code = Inr result \<and>
         dict_get result ''meta'' (PDict []) = Inr meta \<and>
         dict_get meta ''code'' PNone = Inr c \<and> py_eq_int c 200 \<and>
         dict_get result ''data'' (PDict []) = Inr data \<and>
         dict_get data ''region'' PNone = Inr region \<and>
         truthy region \<and> py_contains ''features'' region = Inr True \<and>
         swap_featurecollection sf region = Inr d)" for d
    unfolding fetch_region_geometry_def try_except_Some_iff
  proof
    assume "bind_err (http (API_BASE_URL @ ''/'' @ endpoint) code) (\<lambda>result.
        bind_err (dict_get result ''meta'' (PDict [])) (\<lambda>meta.
        bind_err (dict_get meta ''code'' PNone) (\<lambda>c.
        if py_eq_int c 200 then
          bind_err (dict_get result ''data'' (PDict [])) (\<lambda>data.
          bind_err (dict_get data ''region'' PNone) (\<lambda>region_data.
          bind_err (if truthy region_data then py_contains ''features'' region_data
                    else Inr False) (\<lambda>has_features.
          if has_features then
            bind_err (swap_featurecollection sf region_data) (\<lambda>r. Inr (Some r))
          else Inr None)))
        else Inr None))) = Inr (Some d)"
    then show "\<exists>result meta c data region.
         http (API_BASE_URL @ ''/'' @ endpoint) code = Inr result \<and>
         dict_get result ''meta'' (PDict []) = Inr meta \<and>
         dict_get meta ''code'' PNone = Inr c \<and> py_eq_int c 200 \<and>
         dict_get result ''data'' (PDict []) = Inr data \<and>
         dict_get data ''region'' PNone = Inr region \<and>
         truthy region \<and> py_contains ''features'' region = Inr True \<and>
         swap_featurecollection sf region = Inr d"
      by (auto simp: bind_err_Inr_iff split: if_splits)
  next
    assume "\<exists>result meta c data region.
         http (API_BASE_URL @ ''/'' @ endpoint) code = Inr result \<and>
         dict_get result ''meta'' (PDict []) = Inr meta \<and>
         dict_get meta ''code'' PNone = Inr c \<and> py_eq_int c 200 \<and>
         dict_get result ''data'' (PDict []) = Inr data \<and>
         dict_get data ''region'' PNone = Inr region \<and>
         truthy region \<and> py_contains ''features'' region = Inr True \<and>
         swap_featurecollection sf region = Inr d"
    then show "bind_err (http (API_BASE_URL @ ''/'' @ endpoint) code) (\<lambda>result.
        bind_err (dict_get result ''meta'' (PDict [])) (\<lambda>meta.
        bind_err (dict_get meta ''code'' PNone) (\<lambda>c.
        if py_eq_int c 200 then
          bind_err (dict_get result ''data'' (PDict [])) (\<lambda>data.
          bind_err (dict_get data ''region'' PNone) (\<lambda>region_data.
          bind_err (if truthy region_data then py_contains ''features'' region_data
                    else Inr False) (\<lambda>has_features.
          if has_features then
            bind_err (swap_featurecollection sf region_data) (\<lambda>r. Inr (Some r))
          else Inr None)))
        else Inr None))) = Inr (Some d)"
      by (elim exE conjE) simp
  qed
qed


lemma example_region_swapped:
  "swap_featurecollection (\<lambda>s. None) example_region =
     Inr (PDict [(''type'', PStr ''FeatureCollection''),
            (''features'', PList [example_feature ''ACEH'' (PList [PFloat (Fin 96.7), PFloat (Fin 4.7)]),
                                 example_feature ''SABANG'' (PList [PFloat (Fin 95.3), PFloat (Fin 5.9)])])])"
  by (simp add: example_region_def example_feature_def swap_geometry_def swap_point_def
      looks_like_latlon_seq in_envelope_def)

text \<open>
  The theorem at the example service: the province 11 is fetched and comes back with
  its first point exchanged; a city is not known to the service, the request raises and
  the result is \<^verbatim>\<open>None\<close>.
\<close>

theorem fetch_region_geometry_total_witness:
  "fetch_region_geometry example_http (\<lambda>s. None) ''province'' ''11'' =
     Inr (Some (PDict [(''type'', PStr ''FeatureCollection''),
            (''features'', PList [example_feature ''ACEH'' (PList [PFloat (Fin 96.7), PFloat (Fin 4.7)]),
                                 example_feature ''SABANG'' (PList [PFloat (Fin 95.3), PFloat (Fin 5.9)])])])) \<and>
   fetch_region_geometry example_http (\<lambda>s. None) ''city'' ''1101'' = Inr None"
proof -
  let ?sf = "\<lambda>s::string. None :: pyfloat option"
  let ?result = "PDict [(''meta'', PDict [(''code'', PInt 200)]),
                       (''data'', PDict [(''region'', example_region)])]"
  have ok: "\<exists>result meta c data region.
         example_http (API_BASE_URL @ ''/'' @ ''province'') ''11'' = Inr result \<and>
         dict_get result ''meta'' (PDict []) = Inr meta \<and>
         dict_get meta ''code'' PNone = Inr c \<and> py_eq_int c 200 \<and>
         dict_get result ''data'' (PDict []) = Inr data \<and>
         dict_get data ''region'' PNone = Inr region \<and>
         truthy region \<and> py_contains ''features'' region = Inr True \<and>
         swap_featurecollection ?sf region = Inr (PDict [(''type'', PStr ''FeatureCollection''),
            (''features'', PList [example_feature ''ACEH'' (PList [PFloat (Fin 96.7), PFloat (Fin 4.7)]),
                                 example_feature ''SABANG'' (PList [PFloat (Fin 95.3), PFloat (Fin 5.9)])])])"
    apply (rule exI [of _ ?result])
    apply (rule exI [of _ "PDict [(''code'', PInt 200)]"])
    apply (rule exI [of _ "PInt 200"])
    apply (rule exI [of _ "PDict [(''region'', example_region)]"])
    apply (rule exI [of _ example_region])
    apply (simp add: example_http_def API_BASE_URL_def example_region_swapped)
    apply (simp add: example_region_def)
    done
  have r1: "fetch_region_geometry example_http ?sf ''province'' ''11'' =
     Inr (Some (PDict [(''type'', PStr ''FeatureCollection''),
            (''features'', PList [example_feature ''ACEH'' (PList [PFloat (Fin 96.7), PFloat (Fin 4.7)]),
                                 example_feature ''SABANG'' (PList [PFloat (Fin 95.3), PFloat (Fin 5.9)])])]))"
    using fetch_region_geometry_total [of example_http ?sf "''province''" "''11''"] ok by blast
  have err: "example_http (API_BASE_URL @ ''/'' @ ''city'') ''1101'' = Inl RequestError"
    by (simp add: example_http_def API_BASE_URL_def)
  have r2: "fetch_region_geometry example_http ?sf ''city'' ''1101'' = Inr None"
    using fetch_region_geometry_total [of example_http ?sf "''city''" "''1101''"] err by blast
  from r1 r2 show ?thesis by simp
qed

section \<open>Properties of the conversion\<close>

lemma try_except_Inr_iff:
  "try_except body h = Inr r \<longleftrightarrow> body = Inr r \<or> ((\<exists>e. body = Inl e) \<and> r = h)"
  by (cases body) (auto simp: try_except_def)

text \<open>
  Claim C6. When \<^verbatim>\<open>geojson_to_ee_geometry\<close> returns a geometry and a table, the geometry
  is \<^verbatim>\<open>ee.Geometry\<close> of the \<^verbatim>\<open>geometry\<close> of the first element of \<^verbatim>\<open>features\<close>, whatever the
  further elements are, and the table is what \<^verbatim>\<open>GeoDataFrame.from_features\<close> builds from the
  whole of \<^verbatim>\<open>features\<close>, brought to EPSG:4326.
\<close>

theorem geojson_to_ee_geometry_first_feature:
  assumes "geojson_to_ee_geometry lib geojson_data = Inr (Some ee_geom, Some gdf)"
  shows "\<exists>features feature geometry gdf0.
           py_getitem geojson_data ''features'' = Inr features \<and>
           py_first features = Inr feature \<and>
           py_getitem feature ''geometry'' = Inr geometry \<and>
           ee_Geometry lib geometry = Inr ee_geom \<and>
           from_features lib features = Inr gdf0 \<and> \<not> gdf_empty lib gdf0 \<and>
           ensure_wgs84 lib gdf0 = Inr gdf"
  using assms
  unfolding geojson_to_ee_geometry_def try_except_Inr_iff
  by (auto simp: bind_err_Inr_iff split: if_splits)

text \<open>
  The theorem at the example region of two features: the geometry is the first
  feature's point, the table holds both features.
\<close>

theorem geojson_to_ee_geometry_first_feature_witness:
  "geojson_to_ee_geometry example_lib example_region =
     Inr (Some (PDict [(''type'', PStr ''Point''),
                       (''coordinates'', PList [PFloat (Fin 4.7), PFloat (Fin 96.7)])]),
          Some [example_feature ''ACEH'' (PList [PFloat (Fin 4.7), PFloat (Fin 96.7)]),
                example_feature ''SABANG'' (PList [PFloat (Fin 95.3), PFloat (Fin 5.9)])]) \<and>
   (\<exists>features feature.
      py_getitem example_region ''features'' = Inr features \<and>
      py_first features = Inr feature \<and>
      feature = example_feature ''ACEH'' (PList [PFloat (Fin 4.7), PFloat (Fin 96.7)]) \<and>
      py_getitem feature ''geometry'' =
        Inr (PDict [(''type'', PStr ''Point''),
                    (''coordinates'', PList [PFloat (Fin 4.7), PFloat (Fin 96.7)])]))"
proof -
  let ?g = "PDict [(''type'', PStr ''Point''),
                   (''coordinates'', PList [PFloat (Fin 4.7), PFloat (Fin 96.7)])]"
  let ?t = "[example_feature ''ACEH'' (PList [PFloat (Fin 4.7), PFloat (Fin 96.7)]),
             example_feature ''SABANG'' (PList [PFloat (Fin 95.3), PFloat (Fin 5.9)])]"
  have res: "geojson_to_ee_geometry example_lib example_region = Inr (Some ?g, Some ?t)"
    by (simp add: geojson_to_ee_geometry_def example_lib_def example_region_def
        example_feature_def ensure_wgs84_def try_except_def)
  from geojson_to_ee_geometry_first_feature [OF res]
  obtain features feature geometry where
    f: "py_getitem example_region ''features'' = Inr features"
      "py_first features = Inr feature" "py_getitem feature ''geometry'' = Inr geometry"
      "ee_Geometry example_lib geometry = Inr ?g"
    by blast
  from f(4) have "geometry = ?g" by (simp add: example_lib_def)
  moreover from f(1,2) have "feature = example_feature ''ACEH'' (PList [PFloat (Fin 4.7), PFloat (Fin 96.7)])"
    by (auto simp: example_region_def)
  ultimately show ?thesis using res f by blast
qed

section \<open>Properties of the administrative selection\<close>

lemma calls_load_geometry [simp]:
  "calls (load_geometry srv endpoint code name st) = calls st @ [GeometryCall endpoint code]"
  by (simp add: load_geometry_def Let_def split: option.splits prod.splits)

lemma selectbox_pick:
  "selectbox (first # options) pick \<noteq> first \<Longrightarrow>
     selectbox (first # options) pick = pick \<and> pick \<in> set options"
  by (auto split: if_splits)

lemma lookup_code_Inr_iff: "lookup_code data name = Inr c \<longleftrightarrow> map_of data name = Some c"
  by (simp add: lookup_code_def split: option.splits)

lemma lookup_code_member:
  "name \<in> set (map fst data) \<Longrightarrow> \<exists>c. lookup_code data name = Inr c"
  by (cases "map_of data name") (auto simp: lookup_code_def map_of_eq_None_iff)

lemma city_level_use_province:
  assumes "city_select sel = ''-- Gunakan Provinsi --''"
  shows "\<exists>st'. city_level srv sel name code st = Inr st' \<and>
           calls st' = calls st @ DropdownCall ''city'' (Some code) #
             (if fetch_dropdown srv ''city'' (Some code) = [] then []
              else [GeometryCall ''province'' code])"
  by (simp add: city_level_def Let_def assms)

text \<open>
  Claim C8. With the pick "use province boundary" in the city select box, the branch
  ends without an exception; every geometry fetch it makes is for the endpoint
  \<^verbatim>\<open>province\<close> with the code of the picked province, so none is for the endpoint
  \<^verbatim>\<open>city\<close>; and when a province is picked and the province has cities, the calls are
  exactly the two dropdown fetches and the one fetch of the province's geometry.
\<close>

theorem use_province_fetches_province_only:
  assumes "city_select sel = ''-- Gunakan Provinsi --''"
  shows "\<exists>st. admin_boundary_mode srv sel = Inr st \<and>
           (\<forall>endpoint code. GeometryCall endpoint code \<in> set (calls st) \<longrightarrow>
              endpoint = ''province'' \<and>
              lookup_code (fetch_dropdown srv ''province'' None) (province_select sel) = Inr code) \<and>
           (\<forall>code. GeometryCall ''city'' code \<notin> set (calls st)) \<and>
           (\<forall>code. province_select sel \<noteq> ''-- Pilih Provinsi --'' \<and>
              lookup_code (fetch_dropdown srv ''province'' None) (province_select sel) = Inr code \<and>
              fetch_dropdown srv ''city'' (Some code) \<noteq> [] \<longrightarrow>
              calls st = [DropdownCall ''province'' None, DropdownCall ''city'' (Some code),
                          GeometryCall ''province'' code])"
proof -
  let ?data = "fetch_dropdown srv ''province'' None"
  let ?opts = "''-- Pilih Provinsi --'' # map fst ?data"
  let ?st1 = "initial_state\<lparr>calls := [DropdownCall ''province'' None]\<rparr> :: ('a, 'b, 'c) aoi_state"
  show ?thesis
  proof (cases "?data = [] \<or> selectbox ?opts (province_select sel) = ''-- Pilih Provinsi --''")
    case True
    then have run: "admin_boundary_mode srv sel = Inr ?st1"
      by (auto simp: admin_boundary_mode_def Let_def simp del: selectbox.simps)
    have none: "\<not> (province_select sel \<noteq> ''-- Pilih Provinsi --'' \<and>
        lookup_code ?data (province_select sel) = Inr code)" for code
      using True by (auto simp: lookup_code_Inr_iff image_iff dest!: map_of_SomeD split: if_splits)
    show ?thesis
      unfolding run using none by (auto simp: initial_state_def)
  next
    case False
    then have sel: "selectbox ?opts (province_select sel) = province_select sel"
      and mem: "province_select sel \<in> set (map fst ?data)"
      and ne: "?data \<noteq> []" and np: "province_select sel \<noteq> ''-- Pilih Provinsi --''"
      using selectbox_pick [of "''-- Pilih Provinsi --''" "map fst ?data" "province_select sel"]
      by auto
    from lookup_code_member [OF mem] obtain pc where pc: "lookup_code ?data (province_select sel) = Inr pc"
      by blast
    let ?st2 = "?st1\<lparr>selected_province := Some (province_select sel, pc)\<rparr>"
    from city_level_use_province [OF assms, of srv "province_select sel" pc ?st2]
    obtain st' where st': "city_level srv sel (province_select sel) pc ?st2 = Inr st'"
      and calls: "calls st' = calls ?st2 @ DropdownCall ''city'' (Some pc) #
             (if fetch_dropdown srv ''city'' (Some pc) = [] then []
              else [GeometryCall ''province'' pc])"
      by blast
    have run: "admin_boundary_mode srv sel = Inr st'"
      using ne np sel pc st' by (simp add: admin_boundary_mode_def Let_def del: selectbox.simps)
    show ?thesis
      unfolding run using calls pc by (auto simp: initial_state_def)
  qed
qed

text \<open>
  The theorem at the example: the province ACEH is picked, then its boundary; the
  calls are the two dropdown fetches and the fetch of the province's geometry.
\<close>

theorem use_province_fetches_province_only_witness:
  "\<exists>st. admin_boundary_mode example_services example_selections = Inr st \<and>
      calls st = [DropdownCall ''province'' None, DropdownCall ''city'' (Some ''11''),
                  GeometryCall ''province'' ''11''] \<and>
      GeometryCall ''city'' ''1172'' \<notin> set (calls st)"
proof -
  have pick: "city_select example_selections = ''-- Gunakan Provinsi --''"
    by (simp add: example_selections_def)
  have code: "province_select example_selections \<noteq> ''-- Pilih Provinsi --'' \<and>
      lookup_code (fetch_dropdown example_services ''province'' None)
        (province_select example_selections) = Inr ''11'' \<and>
      fetch_dropdown example_services ''city'' (Some ''11'') \<noteq> []"
    by (simp add: example_selections_def example_services_def lookup_code_def)
  from use_province_fetches_province_only [OF pick, of example_services] code
  show ?thesis by blast
qed

section \<open>Properties of the index engine\<close>

text \<open>
  Claim C9. For a composite whose pixel has the bands B2 (blue), B3 (green), B4 (red),
  B8 (near infrared) and B11 (short-wave infrared), each of the eight indices is one
  band, named after the index, whose value is the catalog's formula on those bands.
  Nothing clamps the value. Any other index name raises KeyError.
\<close>

theorem calculate_index_formulas:
  assumes "map_of c ''B2'' = Some blue" "map_of c ''B3'' = Some green"
    "map_of c ''B4'' = Some red" "map_of c ''B8'' = Some nir" "map_of c ''B11'' = Some swir"
  shows "index_at c ''NDVI'' = Some [(''NDVI'', (nir - red) / (nir + red))] \<and>
         index_at c ''NDWI'' = Some [(''NDWI'', (green - nir) / (green + nir))] \<and>
         index_at c ''MNDWI'' = Some [(''MNDWI'', (green - swir) / (green + swir))] \<and>
         index_at c ''NDBI'' = Some [(''NDBI'', (swir - nir) / (swir + nir))] \<and>
         index_at c ''NDMI'' = Some [(''NDMI'', (nir - swir) / (nir + swir))] \<and>
         index_at c ''EVI'' = Some [(''EVI'', 2.5 * (nir - red) / (nir + 6 * red - 7.5 * blue + 1))] \<and>
         index_at c ''SAVI'' = Some [(''SAVI'', 1.5 * (nir - red) / (nir + red + 0.5))] \<and>
         index_at c ''BSI'' = Some [(''BSI'', (swir + red - nir - blue) / (swir + red + nir + blue))] \<and>
         (\<forall>n. n \<notin> {''NDVI'', ''NDWI'', ''MNDWI'', ''NDBI'', ''EVI'', ''SAVI'', ''BSI'', ''NDMI''} \<longrightarrow>
              calculate_index img n = Inl KeyError)"
proof -
  have 1: "index_at c ''NDVI'' = Some [(''NDVI'', (nir - red) / (nir + red))]"
    using assms by (simp add: index_at_def calculate_index_def VEGETATION_INDICES_def)
  have 2: "index_at c ''NDWI'' = Some [(''NDWI'', (green - nir) / (green + nir))]"
    using assms by (simp add: index_at_def calculate_index_def VEGETATION_INDICES_def)
  have 3: "index_at c ''MNDWI'' = Some [(''MNDWI'', (green - swir) / (green + swir))]"
    using assms by (simp add: index_at_def calculate_index_def VEGETATION_INDICES_def)
  have 4: "index_at c ''NDBI'' = Some [(''NDBI'', (swir - nir) / (swir + nir))]"
    using assms by (simp add: index_at_def calculate_index_def VEGETATION_INDICES_def)
  have 5: "index_at c ''NDMI'' = Some [(''NDMI'', (nir - swir) / (nir + swir))]"
    using assms by (simp add: index_at_def calculate_index_def VEGETATION_INDICES_def)
  have evi: "(nir - red) * 2.5 / (nir + red * 6 - blue * 7.5 + 1) =
             2.5 * (nir - red) / (nir + 6 * red - 7.5 * blue + 1)"
    by (simp add: mult.commute)
  have "index_at c ''EVI'' = Some [(''EVI'', (nir - red) * 2.5 / (nir + red * 6 - blue * 7.5 + 1))]"
    using assms
    by (simp add: index_at_def calculate_index_def VEGETATION_INDICES_def combine_opt_def
        combine_def Let_def)
  then have 6: "index_at c ''EVI'' = Some [(''EVI'', 2.5 * (nir - red) / (nir + 6 * red - 7.5 * blue + 1))]"
    by (simp only: evi)
  have savi: "(nir - red) / (nir + red + 0.5) * 1.5 = 1.5 * (nir - red) / (nir + red + 0.5)"
    by (simp add: mult.commute)
  have "index_at c ''SAVI'' = Some [(''SAVI'', (nir - red) / (nir + red + 0.5) * 1.5)]"
    using assms
    by (simp add: index_at_def calculate_index_def VEGETATION_INDICES_def combine_opt_def
        combine_def Let_def)
  then have 7: "index_at c ''SAVI'' = Some [(''SAVI'', 1.5 * (nir - red) / (nir + red + 0.5))]"
    by (simp only: savi)
  have 8: "index_at c ''BSI'' = Some [(''BSI'', (swir + red - nir - blue) / (swir + red + nir + blue))]"
    using assms
    by (simp add: index_at_def calculate_index_def VEGETATION_INDICES_def combine_opt_def
        combine_def Let_def)
  have 9: "\<forall>n. n \<notin> {''NDVI'', ''NDWI'', ''MNDWI'', ''NDBI'', ''EVI'', ''SAVI'', ''BSI'', ''NDMI''} \<longrightarrow>
              calculate_index img n = Inl KeyError"
    by (simp add: calculate_index_def VEGETATION_INDICES_def)
  from 1 2 3 4 5 6 7 8 9 show ?thesis by blast
qed


text \<open>
  The theorem at a pixel with red 0.1 and near infrared 0.4, where NDVI is 0.6; at a
  pixel with near infrared 1, red 0 and blue 0.2, where EVI is 5, outside the
  documented range; and at a name that is not in the catalog.
\<close>

theorem calculate_index_formulas_witness:
  "index_at [(''B2'', 0.05), (''B3'', 0.08), (''B4'', 0.1), (''B8'', 0.4), (''B11'', 0.2)] ''NDVI''
     = Some [(''NDVI'', 0.6)] \<and>
   index_at [(''B2'', 0.2), (''B3'', 0.1), (''B4'', 0), (''B8'', 1), (''B11'', 0.3)] ''EVI''
     = Some [(''EVI'', 5)] \<and>
   calculate_index Composite ''NDRE'' = Inl KeyError"
proof -
  let ?c1 = "[(''B2'', 0.05), (''B3'', 0.08), (''B4'', 0.1), (''B8'', 0.4), (''B11'', 0.2)] :: (string \<times> real) list"
  let ?c2 = "[(''B2'', 0.2), (''B3'', 0.1), (''B4'', 0), (''B8'', 1), (''B11'', 0.3)] :: (string \<times> real) list"
  have a: "map_of ?c1 ''B2'' = Some 0.05" "map_of ?c1 ''B3'' = Some 0.08"
    "map_of ?c1 ''B4'' = Some 0.1" "map_of ?c1 ''B8'' = Some 0.4" "map_of ?c1 ''B11'' = Some 0.2"
    by simp_all
  have b: "map_of ?c2 ''B2'' = Some 0.2" "map_of ?c2 ''B3'' = Some 0.1"
    "map_of ?c2 ''B4'' = Some 0" "map_of ?c2 ''B8'' = Some 1" "map_of ?c2 ''B11'' = Some 0.3"
    by simp_all
  have r1: "index_at ?c1 ''NDVI'' = Some [(''NDVI'', 0.6)]"
    using calculate_index_formulas [OF a, of Composite] by simp
  have r2: "index_at ?c2 ''EVI'' = Some [(''EVI'', 5)]"
    using calculate_index_formulas [OF b, of Composite] by simp
  have r3: "calculate_index Composite ''NDRE'' = Inl KeyError"
    using calculate_index_formulas [OF a, of Composite] by simp
  from r1 r2 r3 show ?thesis by simp
qed

section \<open>Properties of the land-cover statistics\<close>





















end
